theory Spec2Isabelle
  imports Complex_Main "HOL-Library.Multiset"
begin

section \<open>Numbers and configuration\<close>

text \<open>
  The program computes with Python floats and small Python integers. Both are embedded
  as exact numbers: a float is a \<^typ>\<open>real\<close>, an integer that only counts or selects is an
  \<^typ>\<open>int\<close>. Every operation is the mathematical one; rounding, infinities and NaN are
  outside the model.
\<close>

definition RENDER_WIDTH :: real where "RENDER_WIDTH = 400"
definition RENDER_HEIGHT :: real where "RENDER_HEIGHT = 300"

definition GRAVITY :: real where "GRAVITY = 1.2"
definition JUMP_FORCE :: real where "JUMP_FORCE = 18.0"
definition MOVE_SPEED :: real where "MOVE_SPEED = 0.8"
definition RUN_SPEED :: real where "RUN_SPEED = 1.4"
definition FRICTION :: real where "FRICTION = 0.82"
definition TURN_SPEED :: real where "TURN_SPEED = 0.09"
definition CAM_SMOOTH :: real where "CAM_SMOOTH = 0.08"

section \<open>Vectors\<close>

record Vector3 =
  vec_x :: real
  vec_y :: real
  vec_z :: real

definition Vector3 :: "real \<Rightarrow> real \<Rightarrow> real \<Rightarrow> Vector3" where
  "Vector3 a b c = \<lparr>vec_x = a, vec_y = b, vec_z = c\<rparr>"

section \<open>The player\<close>

text \<open>
  \<open>Player.__init__\<close>: position, velocity, heading, the grounded flag and the walk-cycle
  phase. The key state of a tick is a function from the keys \<open>Player.update\<close> reads to
  whether each is held.
\<close>

record Player =
  pos :: Vector3
  vel :: Vector3
  yaw :: real
  grounded :: bool
  walk_cycle :: real

definition Player_init :: "real \<Rightarrow> real \<Rightarrow> real \<Rightarrow> Player" where
  "Player_init a b c =
     \<lparr>pos = Vector3 a b c, vel = Vector3 0 0 0, yaw = 0, grounded = False, walk_cycle = 0\<rparr>"

datatype key =
  K_LSHIFT | K_RSHIFT | K_UP | K_w | K_DOWN | K_s | K_LEFT | K_a | K_RIGHT | K_d | K_SPACE

type_synonym keys = "key \<Rightarrow> bool"

text \<open>Lines 247 to 252: the speed tier and the two direction variables. The second
  assignment of each pair overrides the first, so backward wins over forward and right
  over left.\<close>

definition input_speed :: "keys \<Rightarrow> real" where
  "input_speed keys = (if keys K_LSHIFT \<or> keys K_RSHIFT then RUN_SPEED else MOVE_SPEED)"

definition input_forward :: "keys \<Rightarrow> int" where
  "input_forward keys =
     (if keys K_DOWN \<or> keys K_s then - 1 else if keys K_UP \<or> keys K_w then 1 else 0)"

definition input_turning :: "keys \<Rightarrow> int" where
  "input_turning keys =
     (if keys K_RIGHT \<or> keys K_d then - 1 else if keys K_LEFT \<or> keys K_a then 1 else 0)"

text \<open>Line 254: \<open>self.yaw += turning * TURN_SPEED\<close>.\<close>

definition update_turn :: "keys \<Rightarrow> Player \<Rightarrow> Player" where
  "update_turn keys p = p\<lparr>yaw := yaw p + of_int (input_turning keys) * TURN_SPEED\<rparr>"

text \<open>Lines 257 to 263: the heading-relative impulse and the walk cycle.\<close>

definition update_move :: "keys \<Rightarrow> Player \<Rightarrow> Player" where
  "update_move keys p =
     (let speed = input_speed keys; forward = input_forward keys in
      if forward \<noteq> 0 then
        (let p1 = p\<lparr>vel := (vel p)
                   \<lparr>vec_x := vec_x (vel p) + sin (yaw p) * speed * of_int forward,
                    vec_z := vec_z (vel p) + cos (yaw p) * speed * of_int forward\<rparr>\<rparr>
         in if grounded p1
            then p1\<lparr>walk_cycle :=
                      walk_cycle p1 + 0.3 * (if speed = RUN_SPEED then 1.5 else 1.0)\<rparr>
            else p1)
      else p\<lparr>walk_cycle := 0\<rparr>)"

text \<open>Lines 265 and 266: friction on the horizontal velocity.\<close>

definition update_friction :: "Player \<Rightarrow> Player" where
  "update_friction p =
     p\<lparr>vel := (vel p)\<lparr>vec_x := vec_x (vel p) * FRICTION, vec_z := vec_z (vel p) * FRICTION\<rparr>\<rparr>"

text \<open>Lines 268 to 270: the jump.\<close>

definition update_jump :: "keys \<Rightarrow> Player \<Rightarrow> Player" where
  "update_jump keys p =
     (if keys K_SPACE \<and> grounded p
      then p\<lparr>vel := (vel p)\<lparr>vec_y := JUMP_FORCE\<rparr>, grounded := False\<rparr>
      else p)"

text \<open>Lines 272 to 275: gravity, then the velocity is added to the position.\<close>

definition update_integrate :: "Player \<Rightarrow> Player" where
  "update_integrate p =
     (let v = (vel p)\<lparr>vec_y := vec_y (vel p) - GRAVITY\<rparr> in
      p\<lparr>vel := v,
        pos := \<lparr>vec_x = vec_x (pos p) + vec_x v,
                vec_y = vec_y (pos p) + vec_y v,
                vec_z = vec_z (pos p) + vec_z v\<rparr>\<rparr>)"

text \<open>Lines 277 to 280: the floor.\<close>

definition update_floor :: "Player \<Rightarrow> Player" where
  "update_floor p =
     (if vec_y (pos p) < 0
      then p\<lparr>pos := (pos p)\<lparr>vec_y := 0\<rparr>, vel := (vel p)\<lparr>vec_y := 0\<rparr>, grounded := True\<rparr>
      else p)"

text \<open>The state of the tick before the jump test (after line 266) and before the floor
  test (after line 275).\<close>

definition before_jump :: "Player \<Rightarrow> keys \<Rightarrow> Player" where
  "before_jump p keys = update_friction (update_move keys (update_turn keys p))"

definition integrated :: "Player \<Rightarrow> keys \<Rightarrow> Player" where
  "integrated p keys = update_integrate (update_jump keys (before_jump p keys))"

text \<open>\<open>Player.update(keys, dt)\<close>; the source never reads \<open>dt\<close>.\<close>

definition update :: "Player \<Rightarrow> keys \<Rightarrow> real \<Rightarrow> Player" where
  "update p keys dt = update_floor (integrated p keys)"

text \<open>A run of ticks, one key state per tick, as \<open>Game.run\<close> calls \<open>update\<close> with
  \<open>dt = 1/60\<close>.\<close>

definition run_ticks :: "keys list \<Rightarrow> Player \<Rightarrow> Player" where
  "run_ticks ks p = fold (\<lambda>k q. update q k (1 / 60)) ks p"

definition no_keys :: keys where
  "no_keys = (\<lambda>k. False)"

definition hspeed :: "Player \<Rightarrow> real" where
  "hspeed p = sqrt ((vec_x (vel p))\<^sup>2 + (vec_z (vel p))\<^sup>2)"

text \<open>Two inputs used as examples: only the jump key held, and a player at rest on the
  floor.\<close>

definition jump_keys :: keys where
  "jump_keys = (\<lambda>k. k = K_SPACE)"

definition floor_state :: Player where
  "floor_state =
     \<lparr>pos = Vector3 0 0 0, vel = Vector3 0 0 0, yaw = 0, grounded = True, walk_cycle = 0\<rparr>"

text \<open>Key states and players used as examples for the walk cycle: forward, forward with
  a run key, backward only; a grounded and an airborne player with walk cycle 2.\<close>

definition walk_keys :: keys where
  "walk_keys = (\<lambda>k. k = K_w)"

definition run_keys :: keys where
  "run_keys = (\<lambda>k. k = K_w \<or> k = K_LSHIFT)"

definition back_keys :: keys where
  "back_keys = (\<lambda>k. k = K_s)"

definition walking_state :: Player where
  "walking_state = floor_state\<lparr>walk_cycle := 2\<rparr>"

definition airborne_state :: Player where
  "airborne_state = (Player_init 0 20 0)\<lparr>walk_cycle := 2\<rparr>"

text \<open>A player gliding over the floor with horizontal velocity (3, 4).\<close>

definition glide_state :: Player where
  "glide_state = floor_state\<lparr>vel := Vector3 3 0 4\<rparr>"

section \<open>The camera\<close>

text \<open>
  The fields of \<open>Game\<close> that \<open>update_camera\<close> reads and writes. \<open>math.atan2\<close> is the
  two-argument arctangent of the mathematical library, with the value 0 at the origin.
\<close>

record Game =
  player :: Player
  cam_pos :: Vector3
  cam_yaw :: real
  cam_dist :: real
  cam_pitch_height :: real

definition Game_init :: Game where
  "Game_init =
     \<lparr>player = Player_init 0 20 (- 280), cam_pos = Vector3 0 110 (- 650), cam_yaw = 0,
      cam_dist = 340, cam_pitch_height = 125\<rparr>"

definition py_atan2 :: "real \<Rightarrow> real \<Rightarrow> real" where
  "py_atan2 b a =
     (if 0 < a then arctan (b / a)
      else if a < 0 then (if 0 \<le> b then arctan (b / a) + pi else arctan (b / a) - pi)
      else if 0 < b then pi / 2
      else if b < 0 then - (pi / 2)
      else 0)"

text \<open>Lines 377 to 379: the point the camera is pulled towards.\<close>

definition camera_target :: "Game \<Rightarrow> Vector3" where
  "camera_target g =
     \<lparr>vec_x = vec_x (pos (player g)) - sin (yaw (player g)) * cam_dist g,
      vec_y = vec_y (pos (player g)) + cam_pitch_height g,
      vec_z = vec_z (pos (player g)) - cos (yaw (player g)) * cam_dist g\<rparr>"

text \<open>Lines 381 to 387.\<close>

definition update_camera :: "Game \<Rightarrow> Game" where
  "update_camera g =
     (let target = camera_target g;
          c = cam_pos g;
          c' = \<lparr>vec_x = vec_x c + (vec_x target - vec_x c) * CAM_SMOOTH,
                vec_y = vec_y c + (vec_y target - vec_y c) * CAM_SMOOTH,
                vec_z = vec_z c + (vec_z target - vec_z c) * CAM_SMOOTH\<rparr>;
          dx = vec_x (pos (player g)) - vec_x c';
          dz = vec_z (pos (player g)) - vec_z c'
      in g\<lparr>cam_pos := c', cam_yaw := py_atan2 dx dz\<rparr>)"

text \<open>Lines 440 to 442 of \<open>Game.run\<close>: the player is updated, then the camera.\<close>

definition game_tick :: "Game \<Rightarrow> keys \<Rightarrow> Game" where
  "game_tick g keys = update_camera (g\<lparr>player := update (player g) keys (1 / 60)\<rparr>)"

section \<open>Triangles and projection\<close>

type_synonym color = "int \<times> int \<times> int"

text \<open>Lines 13 to 33: the colours.\<close>

definition BLACK :: color where "BLACK = (0, 0, 0)"
definition WHITE :: color where "WHITE = (255, 255, 255)"
definition RED :: color where "RED = (220, 20, 60)"
definition BLUE :: color where "BLUE = (0, 0, 200)"
definition GREEN :: color where "GREEN = (34, 139, 34)"
definition YELLOW :: color where "YELLOW = (255, 215, 0)"
definition GOLD :: color where "GOLD = (218, 165, 32)"
definition SKY_BLUE :: color where "SKY_BLUE = (100, 180, 255)"
definition CASTLE_STONE :: color where "CASTLE_STONE = (220, 215, 205)"
definition CASTLE_DARK :: color where "CASTLE_DARK = (160, 155, 145)"
definition CASTLE_ROOF :: color where "CASTLE_ROOF = (190, 50, 50)"
definition TOWER_COLOR :: color where "TOWER_COLOR = (230, 220, 210)"
definition GRASS_GREEN :: color where "GRASS_GREEN = (60, 180, 60)"
definition DARK_GREEN :: color where "DARK_GREEN = (30, 100, 30)"
definition WATER_BLUE :: color where "WATER_BLUE = (60, 120, 240)"
definition COBBLE :: color where "COBBLE = (150, 145, 135)"
definition WOOD_BROWN :: color where "WOOD_BROWN = (120, 80, 40)"
definition WINDOW_BLUE :: color where "WINDOW_BLUE = (100, 180, 255)"
definition FLAG_RED :: color where "FLAG_RED = (220, 30, 40)"
definition SKIN_COLOR :: color where "SKIN_COLOR = (255, 200, 170)"
definition HAIR_COLOR :: color where "HAIR_COLOR = (70, 40, 10)"

record Triangle =
  tri_v1 :: Vector3
  tri_v2 :: Vector3
  tri_v3 :: Vector3
  tri_color :: color
  z_depth :: real

definition Triangle :: "Vector3 \<Rightarrow> Vector3 \<Rightarrow> Vector3 \<Rightarrow> color \<Rightarrow> Triangle" where
  "Triangle a b c col = \<lparr>tri_v1 = a, tri_v2 = b, tri_v3 = c, tri_color = col, z_depth = 0\<rparr>"

type_synonym screen_tri = "real \<times> (real \<times> real) list \<times> color"

text \<open>Steps 1 and 2 of \<open>project_triangle\<close> for one vertex: translate by the camera
  position, rotate about the Y axis. \<open>rot_z\<close> is the camera-relative depth.\<close>

definition rot_x :: "Vector3 \<Rightarrow> real \<Rightarrow> real \<Rightarrow> real \<Rightarrow> real \<Rightarrow> real" where
  "rot_x v cam_x cam_z cos_yaw sin_yaw =
     (vec_x v - cam_x) * cos_yaw - (vec_z v - cam_z) * sin_yaw"

definition rot_z :: "Vector3 \<Rightarrow> real \<Rightarrow> real \<Rightarrow> real \<Rightarrow> real \<Rightarrow> real" where
  "rot_z v cam_x cam_z cos_yaw sin_yaw =
     (vec_x v - cam_x) * sin_yaw + (vec_z v - cam_z) * cos_yaw"

text \<open>Step 3, line 71, and step 5, lines 83 to 86.\<close>

definition near_reject :: "real \<Rightarrow> real \<Rightarrow> real \<Rightarrow> bool" where
  "near_reject rz1 rz2 rz3 = (rz1 < 5 \<and> rz2 < 5 \<and> rz3 < 5)"

definition bounds_reject ::
  "real \<Rightarrow> real \<Rightarrow> (real \<times> real) \<Rightarrow> (real \<times> real) \<Rightarrow> (real \<times> real) \<Rightarrow> bool" where
  "bounds_reject width height p1 p2 p3 =
     ((fst p1 < - width \<and> fst p2 < - width \<and> fst p3 < - width) \<or>
      (fst p1 > width * 2 \<and> fst p2 > width * 2 \<and> fst p3 > width * 2) \<or>
      (snd p1 < - height \<and> snd p2 < - height \<and> snd p3 < - height) \<or>
      (snd p1 > height * 2 \<and> snd p2 > height * 2 \<and> snd p3 > height * 2))"

text \<open>Step 4 for one vertex: the depth clamped to 0.1 and the perspective divide with
  \<open>fov = 300\<close>.\<close>

definition clamp_depth :: "real \<Rightarrow> real" where
  "clamp_depth rz = max rz 0.1"

definition screen_point :: "real \<Rightarrow> real \<Rightarrow> real \<Rightarrow> real \<Rightarrow> real \<Rightarrow> real \<times> real" where
  "screen_point rx y rz half_w half_h =
     (let fov = 300 in ((rx * fov) / rz + half_w, - (y * fov) / rz + half_h))"

definition project_triangle ::
  "Triangle \<Rightarrow> real \<Rightarrow> real \<Rightarrow> real \<Rightarrow> real \<Rightarrow> real \<Rightarrow> real \<Rightarrow> real \<Rightarrow> real \<Rightarrow> real
     \<Rightarrow> screen_tri option" where
  "project_triangle tri cam_x cam_y cam_z cos_yaw sin_yaw width height half_w half_h =
     (let a = tri_v1 tri; b = tri_v2 tri; c = tri_v3 tri;
          y1 = vec_y a - cam_y; y2 = vec_y b - cam_y; y3 = vec_y c - cam_y;
          rx1 = rot_x a cam_x cam_z cos_yaw sin_yaw; rz1 = rot_z a cam_x cam_z cos_yaw sin_yaw;
          rx2 = rot_x b cam_x cam_z cos_yaw sin_yaw; rz2 = rot_z b cam_x cam_z cos_yaw sin_yaw;
          rx3 = rot_x c cam_x cam_z cos_yaw sin_yaw; rz3 = rot_z c cam_x cam_z cos_yaw sin_yaw
      in if near_reject rz1 rz2 rz3 then None
         else
          (let d1 = clamp_depth rz1; d2 = clamp_depth rz2; d3 = clamp_depth rz3;
               p1 = screen_point rx1 y1 d1 half_w half_h;
               p2 = screen_point rx2 y2 d2 half_w half_h;
               p3 = screen_point rx3 y3 d3 half_w half_h
           in if bounds_reject width height p1 p2 p3 then None
              else Some ((d1 + d2 + d3) * 0.33333, [p1, p2, p3], tri_color tri)))"

text \<open>The three clamped camera-relative depths of a triangle, and their mean.\<close>

definition clamped_depths :: "Triangle \<Rightarrow> real \<Rightarrow> real \<Rightarrow> real \<Rightarrow> real \<Rightarrow> real list" where
  "clamped_depths tri cam_x cam_z cos_yaw sin_yaw =
     [clamp_depth (rot_z (tri_v1 tri) cam_x cam_z cos_yaw sin_yaw),
      clamp_depth (rot_z (tri_v2 tri) cam_x cam_z cos_yaw sin_yaw),
      clamp_depth (rot_z (tri_v3 tri) cam_x cam_z cos_yaw sin_yaw)]"

definition mean :: "real list \<Rightarrow> real" where
  "mean ds = sum_list ds / of_nat (length ds)"

text \<open>Three triangles used as examples, seen from a camera at the origin with yaw 0: one
  in front of the near plane, one wholly behind it, one straddling it.\<close>

definition sample_tri :: Triangle where
  "sample_tri = Triangle (Vector3 0 0 10) (Vector3 10 0 10) (Vector3 0 10 10) RED"

definition behind_tri :: Triangle where
  "behind_tri = Triangle (Vector3 0 0 4) (Vector3 10 0 (- 3)) (Vector3 0 10 1) RED"

definition straddle_tri :: Triangle where
  "straddle_tri = Triangle (Vector3 0 0 4) (Vector3 10 0 10) (Vector3 0 10 1) RED"

section \<open>Depth sort and shading\<close>

text \<open>
  Line 414, \<open>screen_tris.sort(key=lambda x: x[0], reverse=True)\<close>. Python's list sort is
  stable, and with \<open>reverse=True\<close> it reverses the list, sorts it stably in ascending
  key order and reverses the result.
\<close>

definition sort_screen_tris :: "screen_tri list \<Rightarrow> screen_tri list" where
  "sort_screen_tris ts = rev (sort_key fst (rev ts))"

text \<open>\<open>int(x)\<close> on a float truncates towards zero.\<close>

definition py_int :: "real \<Rightarrow> int" where
  "py_int r = (if 0 \<le> r then \<lfloor>r\<rfloor> else \<lceil>r\<rceil>)"

text \<open>Lines 418 to 421.\<close>

definition shade :: "real \<Rightarrow> real" where
  "shade z = 1.0 - min (z / 2200.0) 0.65"

definition shade_channel :: "int \<Rightarrow> real \<Rightarrow> int" where
  "shade_channel c z = max 0 (min 255 (py_int (of_int c * shade z)))"

definition shade_color :: "color \<Rightarrow> real \<Rightarrow> color" where
  "shade_color col z =
     (case col of (r, g, b) \<Rightarrow> (shade_channel r z, shade_channel g z, shade_channel b z))"

text \<open>Lines 404 to 422 of \<open>Game.draw\<close>: the polygons handed to the rasterizer, in order.\<close>

definition project_all :: "Triangle list \<Rightarrow> Game \<Rightarrow> screen_tri list" where
  "project_all all_tris g =
     List.map_filter
       (\<lambda>tri. project_triangle tri (vec_x (cam_pos g)) (vec_y (cam_pos g)) (vec_z (cam_pos g))
                 (cos (cam_yaw g)) (sin (cam_yaw g)) RENDER_WIDTH RENDER_HEIGHT
                 (RENDER_WIDTH / 2) (RENDER_HEIGHT / 2))
       all_tris"

definition draw_polygons :: "Triangle list \<Rightarrow> Game \<Rightarrow> (color \<times> (real \<times> real) list) list" where
  "draw_polygons all_tris g =
     map (\<lambda>(z, pts, col). (shade_color col z, pts)) (sort_screen_tris (project_all all_tris g))"

text \<open>A list of projected triangles with ties in depth, used as an example.\<close>

definition sample_screen_tris :: "screen_tri list" where
  "sample_screen_tris = [(1, [], RED), (3, [], GREEN), (1, [], BLUE), (2, [], WHITE), (3, [], GOLD)]"

section \<open>Level builders\<close>

text \<open>
  The builders append triangles to the list they are given; the embedding passes the list
  in and returns the extended list. A division by an integer zero raises
  \<open>ZeroDivisionError\<close> in Python, which is the only exception the builders can raise on
  numeric arguments.
\<close>

datatype py_error = ZeroDivisionError

definition and_then :: "py_error + 'a \<Rightarrow> ('a \<Rightarrow> py_error + 'b) \<Rightarrow> py_error + 'b" where
  "and_then r f = (case r of Inl e \<Rightarrow> Inl e | Inr a \<Rightarrow> f a)"

primrec fold_err :: "('a \<Rightarrow> 'b \<Rightarrow> py_error + 'b) \<Rightarrow> 'a list \<Rightarrow> 'b \<Rightarrow> py_error + 'b" where
  "fold_err f [] t = Inr t"
| "fold_err f (a # as) t = and_then (f a t) (fold_err f as)"

text \<open>Lines 93 to 115.\<close>

definition add_box ::
  "Triangle list \<Rightarrow> real \<Rightarrow> real \<Rightarrow> real \<Rightarrow> real \<Rightarrow> real \<Rightarrow> real \<Rightarrow> color \<Rightarrow> color \<Rightarrow> color
     \<Rightarrow> Triangle list" where
  "add_box tris cx b_y cz w h d top_col front_col side_col =
     (let hw = w * 0.5; hd = d * 0.5;
          x0 = cx - hw; x1 = cx + hw;
          y0 = b_y; y1 = b_y + h;
          z0 = cz - hd; z1 = cz + hd;
          v_bl_f = Vector3 x0 y0 z0; v_br_f = Vector3 x1 y0 z0;
          v_tl_f = Vector3 x0 y1 z0; v_tr_f = Vector3 x1 y1 z0;
          v_bl_b = Vector3 x0 y0 z1; v_br_b = Vector3 x1 y0 z1;
          v_tl_b = Vector3 x0 y1 z1; v_tr_b = Vector3 x1 y1 z1
      in tris @
         [Triangle v_tl_f v_tr_f v_tr_b top_col,
          Triangle v_tl_f v_tr_b v_tl_b top_col,
          Triangle v_bl_f v_br_f v_tr_f front_col,
          Triangle v_bl_f v_tr_f v_tl_f front_col,
          Triangle v_br_b v_bl_b v_tl_b front_col,
          Triangle v_br_b v_tl_b v_tr_b front_col,
          Triangle v_bl_b v_bl_f v_tl_f side_col,
          Triangle v_bl_b v_tl_f v_tl_b side_col,
          Triangle v_br_f v_br_b v_tr_b side_col,
          Triangle v_br_f v_tr_b v_tr_f side_col])"

text \<open>The \<open>cache\<close> of lines 120 and 133: \<open>segments + 1\<close> points on a circle.\<close>

definition ring_cache :: "real \<Rightarrow> real \<Rightarrow> int \<Rightarrow> (real \<times> real) list" where
  "ring_cache step radius segments =
     map (\<lambda>i. (cos (of_nat i * step) * radius, sin (of_nat i * step) * radius))
       [0..<nat (segments + 1)]"

text \<open>Lines 117 to 128.\<close>

definition add_cylinder ::
  "Triangle list \<Rightarrow> real \<Rightarrow> real \<Rightarrow> real \<Rightarrow> real \<Rightarrow> real \<Rightarrow> int \<Rightarrow> color \<Rightarrow> color
     \<Rightarrow> py_error + Triangle list" where
  "add_cylinder tris cx b_y cz radius height segments top_col side_col =
     (if segments = 0 then Inl ZeroDivisionError
      else
       (let step = (2 * pi) / of_int segments;
            top_y = b_y + height;
            cache = ring_cache step radius segments;
            center_top = Vector3 cx top_y cz
        in Inr (fold
             (\<lambda>i ts.
                let x0 = fst (cache ! i); z0 = snd (cache ! i);
                    x1 = fst (cache ! (i + 1)); z1 = snd (cache ! (i + 1));
                    t0 = Vector3 (cx + x0) top_y (cz + z0); t1 = Vector3 (cx + x1) top_y (cz + z1);
                    b0 = Vector3 (cx + x0) b_y (cz + z0); b1 = Vector3 (cx + x1) b_y (cz + z1)
                in ts @ [Triangle center_top t1 t0 top_col,
                         Triangle t0 t1 b1 side_col,
                         Triangle t0 b1 b0 side_col])
             [0..<nat segments] tris)))"

text \<open>Lines 130 to 137.\<close>

definition add_cone ::
  "Triangle list \<Rightarrow> real \<Rightarrow> real \<Rightarrow> real \<Rightarrow> real \<Rightarrow> real \<Rightarrow> int \<Rightarrow> color
     \<Rightarrow> py_error + Triangle list" where
  "add_cone tris cx b_y cz radius height segments col =
     (if segments = 0 then Inl ZeroDivisionError
      else
       (let step = (2 * pi) / of_int segments;
            apex = Vector3 cx (b_y + height) cz;
            cache = ring_cache step radius segments
        in Inr (fold
             (\<lambda>i ts.
                let x0 = fst (cache ! i); z0 = snd (cache ! i);
                    x1 = fst (cache ! (i + 1)); z1 = snd (cache ! (i + 1));
                    b0 = Vector3 (cx + x0) b_y (cz + z0); b1 = Vector3 (cx + x1) b_y (cz + z1)
                in ts @ [Triangle b0 b1 apex col])
             [0..<nat segments] tris)))"

text \<open>Lines 139 to 144.\<close>

definition add_flag :: "Triangle list \<Rightarrow> real \<Rightarrow> real \<Rightarrow> real \<Rightarrow> Triangle list" where
  "add_flag tris cx b_y cz =
     (let tris1 = add_box tris cx b_y cz 3 35 3 WHITE WHITE WHITE;
          v1 = Vector3 cx (b_y + 28) (cz + 2);
          v2 = Vector3 (cx + 22) (b_y + 24) (cz + 2);
          v3 = Vector3 cx (b_y + 20) (cz + 2)
      in tris1 @ [Triangle v1 v2 v3 FLAG_RED])"

text \<open>Lines 146 to 155. \<open>count' * 2 - 1\<close> is an odd integer, so the division cannot fail.\<close>

definition add_battlements ::
  "Triangle list \<Rightarrow> real \<Rightarrow> real \<Rightarrow> real \<Rightarrow> real \<Rightarrow> bool \<Rightarrow> color \<Rightarrow> int \<Rightarrow> Triangle list" where
  "add_battlements tris cx b_y cz len is_z_axis col count' =
     (let merlon_w = len / of_int (count' * 2 - 1);
          h = 22; d = 16;
          start_offset = - len / 2 + merlon_w / 2
      in fold
           (\<lambda>i ts.
              let pos = start_offset + of_nat i * merlon_w * 2
              in if is_z_axis
                 then add_box ts cx b_y (cz + pos) d h merlon_w col CASTLE_DARK CASTLE_DARK
                 else add_box ts (cx + pos) b_y cz merlon_w h d col CASTLE_DARK CASTLE_DARK)
           [0..<nat count'] tris)"

text \<open>Lines 157 to 166.\<close>

definition add_peach_tower ::
  "Triangle list \<Rightarrow> real \<Rightarrow> real \<Rightarrow> real \<Rightarrow> real \<Rightarrow> real \<Rightarrow> real \<Rightarrow> color \<Rightarrow> color
     \<Rightarrow> py_error + Triangle list" where
  "add_peach_tower tris cx b_y cz radius height roof_height wall_color roof_color =
     (let segs = 8 in
      and_then (add_cylinder tris cx b_y cz radius height segs wall_color wall_color) (\<lambda>tris.
      and_then (add_cone tris cx (b_y + height) cz (radius * 1.25) roof_height segs roof_color) (\<lambda>tris.
      Inr (fold
        (\<lambda>i ts.
           let ang = of_nat i * (pi / 3);
               wx = cx + cos ang * radius * 0.85;
               wz = cz + sin ang * radius * 0.85
           in add_box ts wx (b_y + height * 0.4 + of_nat i * 18) wz 14 18 14
                WINDOW_BLUE WINDOW_BLUE WINDOW_BLUE)
        [0..<6] (add_flag tris cx (b_y + height + roof_height + 5) cz)))))"

section \<open>The level\<close>

text \<open>\<open>Level.build\<close>, lines 174 to 235, one function for each block of the source; the
  two local constants \<open>wall_h\<close> and \<open>c_z\<close> are constants here.\<close>

definition wall_h :: real where "wall_h = 92"
definition c_z :: real where "c_z = 210"

definition build_environment :: "Triangle list \<Rightarrow> py_error + Triangle list" where
  "build_environment t =
     (let t = add_box t 0 (- 12) 0 1800 12 1800 GRASS_GREEN DARK_GREEN DARK_GREEN;
          t = add_box t 0 (- 11) 120 180 3 920 COBBLE COBBLE COBBLE
      in add_cylinder t 0 (- 11) 80 280 3 14 COBBLE COBBLE)"

definition build_moat :: "Triangle list \<Rightarrow> Triangle list" where
  "build_moat t =
     (let t = add_box t 0 (- 9) (- 140) 820 9 180 WATER_BLUE WATER_BLUE WATER_BLUE;
          t = add_box t (- 410) (- 9) 180 40 9 720 WATER_BLUE WATER_BLUE WATER_BLUE
      in add_box t 410 (- 9) 180 40 9 720 WATER_BLUE WATER_BLUE WATER_BLUE)"

definition build_bridge :: "Triangle list \<Rightarrow> Triangle list" where
  "build_bridge t =
     (let t = add_box t 0 (- 8) (- 80) 110 6 180 WOOD_BROWN WOOD_BROWN WOOD_BROWN;
          t = add_box t (- 48) (- 3) (- 80) 8 12 160 WOOD_BROWN WOOD_BROWN WOOD_BROWN
      in add_box t 48 (- 3) (- 80) 8 12 160 WOOD_BROWN WOOD_BROWN WOOD_BROWN)"

definition build_front_stairs :: "Triangle list \<Rightarrow> Triangle list" where
  "build_front_stairs t =
     fold (\<lambda>step ts.
             let w = 92 - of_nat step * 8
             in add_box ts 0 (- 8 + of_nat step * 5) (- 120 - of_nat step * 12) w 5 40
                  CASTLE_STONE CASTLE_STONE CASTLE_DARK)
       [0..<6] t"

definition build_walls :: "Triangle list \<Rightarrow> Triangle list" where
  "build_walls t =
     (let t = add_box t (- 310) 0 (- 170) 260 wall_h 38 CASTLE_STONE CASTLE_STONE CASTLE_DARK;
          t = add_box t 310 0 (- 170) 260 wall_h 38 CASTLE_STONE CASTLE_STONE CASTLE_DARK;
          t = add_box t (- 420) 0 160 38 wall_h 720 CASTLE_STONE CASTLE_DARK CASTLE_STONE;
          t = add_box t 420 0 160 38 wall_h 720 CASTLE_STONE CASTLE_DARK CASTLE_STONE;
          t = add_battlements t (- 310) wall_h (- 170) 240 False CASTLE_STONE 5;
          t = add_battlements t 310 wall_h (- 170) 240 False CASTLE_STONE 5;
          t = add_battlements t (- 420) wall_h 160 700 True CASTLE_STONE 9
      in add_battlements t 420 wall_h 160 700 True CASTLE_STONE 9)"

definition build_corner_towers :: "Triangle list \<Rightarrow> py_error + Triangle list" where
  "build_corner_towers t =
     fold_err (\<lambda>(tx, tz) ts. add_peach_tower ts tx 0 tz 58 108 68 TOWER_COLOR CASTLE_ROOF)
       [(- 380, - 160), (380, - 160), (- 380, 520), (380, 520)] t"

definition build_main_castle :: "Triangle list \<Rightarrow> py_error + Triangle list" where
  "build_main_castle t =
     (let t = add_box t 0 0 c_z 520 145 340 CASTLE_STONE CASTLE_STONE CASTLE_STONE;
          t = add_box t (- 240) 0 (c_z - 80) 120 95 180 CASTLE_STONE CASTLE_STONE CASTLE_DARK;
          t = add_box t 240 0 (c_z - 80) 120 95 180 CASTLE_STONE CASTLE_STONE CASTLE_DARK
      in and_then (add_cylinder t 0 0 (c_z + 25) 92 310 14 TOWER_COLOR TOWER_COLOR) (\<lambda>t.
         and_then (add_cone t 0 310 (c_z + 25) 108 135 14 CASTLE_ROOF) (\<lambda>t.
         Inr (add_flag t 0 (310 + 135 + 8) (c_z + 25)))))"

definition build_window :: "Triangle list \<Rightarrow> Triangle list" where
  "build_window t = add_box t 0 165 (c_z - 165) 78 92 14 (240, 180, 220) WINDOW_BLUE WINDOW_BLUE"

definition build_inner_towers :: "Triangle list \<Rightarrow> py_error + Triangle list" where
  "build_inner_towers t =
     fold_err (\<lambda>(tx, tz) ts. add_peach_tower ts tx 0 tz 62 195 85 TOWER_COLOR CASTLE_ROOF)
       [(- 235, c_z - 155), (235, c_z - 155), (- 235, c_z + 155), (235, c_z + 155)] t"

definition build_trees :: "Triangle list \<Rightarrow> py_error + Triangle list" where
  "build_trees t =
     fold_err (\<lambda>(tx, tz) ts.
                 and_then (add_cylinder ts tx 0 tz 12 34 4 WOOD_BROWN WOOD_BROWN) (\<lambda>ts.
                 add_cone ts tx 34 tz 46 68 4 DARK_GREEN))
       [(- 210, 90), (210, 90), (- 260, - 70), (260, - 70), (- 480, 300), (480, 300)] t"

definition build_platforms :: "Triangle list \<Rightarrow> Triangle list" where
  "build_platforms t =
     fold (\<lambda>(p0, p1, p2) ts. add_box ts p0 p1 p2 42 42 42 YELLOW GOLD GOLD)
       [(0, 135, - 35), (170, 95, - 120), (- 170, 95, - 120)] t"

definition build :: "Triangle list \<Rightarrow> py_error + Triangle list" where
  "build t =
     and_then (build_environment t) (\<lambda>t.
     and_then (build_corner_towers
                 (build_walls (build_front_stairs (build_bridge (build_moat t))))) (\<lambda>t.
     and_then (build_main_castle t) (\<lambda>t.
     and_then (build_inner_towers (build_window t)) (\<lambda>t.
     and_then (build_trees t) (\<lambda>t.
     Inr (build_platforms t))))))"

text \<open>\<open>Level.__init__\<close>: a fresh empty list, then \<open>build\<close>.\<close>

definition Level_init :: "py_error + Triangle list" where
  "Level_init = build []"

text \<open>A step appends \<open>n\<close> triangles when its result is its argument followed by a list of
  \<open>n\<close> triangles that does not depend on the argument.\<close>

definition appends :: "(Triangle list \<Rightarrow> Triangle list) \<Rightarrow> nat \<Rightarrow> bool" where
  "appends f n = (\<exists>ts. length ts = n \<and> (\<forall>t. f t = t @ ts))"

definition appends_err :: "(Triangle list \<Rightarrow> py_error + Triangle list) \<Rightarrow> nat \<Rightarrow> bool" where
  "appends_err f n = (\<exists>ts. length ts = n \<and> (\<forall>t. f t = Inr (t @ ts)))"

section \<open>Facts about one tick\<close>

lemmas physics_defs =
  GRAVITY_def JUMP_FORCE_def MOVE_SPEED_def RUN_SPEED_def FRICTION_def TURN_SPEED_def

lemmas update_defs =
  update_def integrated_def before_jump_def update_floor_def update_integrate_def
  update_jump_def update_friction_def update_move_def update_turn_def

lemma grounded_before_jump: "grounded (before_jump p keys) = grounded p"
  by (simp add: before_jump_def update_friction_def update_move_def update_turn_def Let_def)

lemma vel_y_before_jump: "vec_y (vel (before_jump p keys)) = vec_y (vel p)"
  by (simp add: before_jump_def update_friction_def update_move_def update_turn_def Let_def)

lemma pos_before_jump: "pos (before_jump p keys) = pos p"
  by (simp add: before_jump_def update_friction_def update_move_def update_turn_def Let_def)

lemma integrated_pos_y:
  "vec_y (pos (integrated p keys)) =
     vec_y (pos p) + ((if keys K_SPACE \<and> grounded p then JUMP_FORCE else vec_y (vel p)) - GRAVITY)"
  by (simp add: integrated_def update_integrate_def update_jump_def Let_def
      grounded_before_jump vel_y_before_jump pos_before_jump)

lemma integrated_vel_y:
  "vec_y (vel (integrated p keys)) =
     (if keys K_SPACE \<and> grounded p then JUMP_FORCE else vec_y (vel p)) - GRAVITY"
  by (simp add: integrated_def update_integrate_def update_jump_def Let_def
      grounded_before_jump vel_y_before_jump)

lemma integrated_grounded:
  "grounded (integrated p keys) = (grounded p \<and> \<not> keys K_SPACE)"
  by (auto simp add: integrated_def update_integrate_def update_jump_def Let_def
      grounded_before_jump)

lemma update_landing:
  "vec_y (pos (integrated p keys)) < 0 \<Longrightarrow>
     vec_y (pos (update p keys dt)) = 0 \<and> vec_y (vel (update p keys dt)) = 0 \<and>
     grounded (update p keys dt)"
  by (simp add: update_def update_floor_def)

lemma update_no_landing:
  "\<not> vec_y (pos (integrated p keys)) < 0 \<Longrightarrow> update p keys dt = integrated p keys"
  by (simp add: update_def update_floor_def)

lemma update_pos_y_nonneg: "0 \<le> vec_y (pos (update p keys dt))"
  by (simp add: update_def update_floor_def)

text \<open>
  C10. Floor invariant: from any state on or above the floor and for any key state, one
  update ends on or above the floor; and when the integration of the tick would put the
  height below 0, the update ends with height exactly 0, vertical velocity exactly 0 and
  the grounded flag set.
\<close>

theorem floor_invariant:
  assumes "0 \<le> vec_y (pos p)"
  shows "0 \<le> vec_y (pos (update p keys dt)) \<and>
         (vec_y (pos (integrated p keys)) < 0 \<longrightarrow>
            vec_y (pos (update p keys dt)) = 0 \<and> vec_y (vel (update p keys dt)) = 0 \<and>
            grounded (update p keys dt))"
  using update_pos_y_nonneg update_landing by blast

theorem floor_invariant_witness:
  "0 \<le> vec_y (pos (Player_init 0 1 0)) \<and>
   vec_y (pos (integrated (Player_init 0 1 0) no_keys)) < 0 \<and>
   vec_y (pos (update (Player_init 0 1 0) no_keys (1 / 60))) = 0 \<and>
   vec_y (vel (update (Player_init 0 1 0) no_keys (1 / 60))) = 0 \<and>
   grounded (update (Player_init 0 1 0) no_keys (1 / 60))"
proof -
  have h: "0 \<le> vec_y (pos (Player_init 0 1 0))"
    by (simp add: Player_init_def Vector3_def)
  have i: "vec_y (pos (integrated (Player_init 0 1 0) no_keys)) < 0"
    by (simp add: integrated_pos_y no_keys_def Player_init_def Vector3_def GRAVITY_def)
  from floor_invariant [OF h, of no_keys "1 / 60"] h i show ?thesis by blast
qed

lemma run_ticks_Nil: "run_ticks [] p = p"
  by (simp add: run_ticks_def)

lemma run_ticks_Cons: "run_ticks (k # ks) p = run_ticks ks (update p k (1 / 60))"
  by (simp add: run_ticks_def)

text \<open>A grounded player rests on the floor: along every run of ticks from a freshly
  created player, the grounded flag implies height 0 and vertical velocity 0.\<close>

lemma update_grounded_at_rest:
  assumes "grounded p \<longrightarrow> vec_y (pos p) = 0 \<and> vec_y (vel p) = 0"
  shows "grounded (update p keys dt) \<longrightarrow>
           vec_y (pos (update p keys dt)) = 0 \<and> vec_y (vel (update p keys dt)) = 0"
proof (cases "vec_y (pos (integrated p keys)) < 0")
  case True
  then show ?thesis by (simp add: update_landing)
next
  case False
  then have u: "update p keys dt = integrated p keys" by (rule update_no_landing)
  have "\<not> grounded (integrated p keys)"
  proof
    assume "grounded (integrated p keys)"
    then have g: "grounded p" "\<not> keys K_SPACE" by (simp_all add: integrated_grounded)
    with assms have "vec_y (pos (integrated p keys)) = - GRAVITY"
      by (simp add: integrated_pos_y)
    with False show False by (simp add: GRAVITY_def)
  qed
  then show ?thesis by (simp add: u)
qed

lemma run_ticks_grounded_at_rest:
  assumes "grounded p \<longrightarrow> vec_y (pos p) = 0 \<and> vec_y (vel p) = 0"
  shows "grounded (run_ticks ks p) \<longrightarrow>
           vec_y (pos (run_ticks ks p)) = 0 \<and> vec_y (vel (run_ticks ks p)) = 0"
  using assms
proof (induction ks arbitrary: p)
  case Nil
  then show ?case by (simp add: run_ticks_Nil)
next
  case (Cons k ks)
  from update_grounded_at_rest [OF Cons.prems] show ?case
    unfolding run_ticks_Cons by (rule Cons.IH)
qed

lemma reachable_grounded_on_floor:
  "grounded (run_ticks ks (Player_init a b c)) \<Longrightarrow>
     vec_y (pos (run_ticks ks (Player_init a b c))) = 0"
  using run_ticks_grounded_at_rest [of "Player_init a b c" ks]
  by (simp add: Player_init_def)

text \<open>
  C5. From a grounded state on or above the floor, with the jump key held: the jump
  statement sets the vertical velocity to the jump impulse and clears the grounded flag;
  gravity is subtracted in the same tick, so the update ends with vertical velocity
  \<open>JUMP_FORCE - GRAVITY\<close> and not grounded. On any tick, from a state \<open>q\<close> on or above
  the floor whose integrated height is below 0, the update ends with height 0, vertical
  velocity 0 and the grounded flag set.
\<close>

theorem jump_transition:
  assumes "grounded p" and "keys K_SPACE" and "0 \<le> vec_y (pos p)"
  shows "vec_y (vel (update_jump keys (before_jump p keys))) = JUMP_FORCE \<and>
         \<not> grounded (update_jump keys (before_jump p keys)) \<and>
         vec_y (vel (update p keys dt)) = JUMP_FORCE - GRAVITY \<and>
         \<not> grounded (update p keys dt) \<and>
         (0 \<le> vec_y (pos q) \<and> vec_y (pos (integrated q k)) < 0 \<longrightarrow>
            vec_y (pos (update q k dt')) = 0 \<and> vec_y (vel (update q k dt')) = 0 \<and>
            grounded (update q k dt'))"
proof -
  have j: "vec_y (vel (update_jump keys (before_jump p keys))) = JUMP_FORCE"
    "\<not> grounded (update_jump keys (before_jump p keys))"
    using assms by (simp_all add: update_jump_def grounded_before_jump)
  have "vec_y (pos (integrated p keys)) = vec_y (pos p) + (JUMP_FORCE - GRAVITY)"
    using assms by (simp add: integrated_pos_y)
  with assms have "\<not> vec_y (pos (integrated p keys)) < 0"
    by (simp add: JUMP_FORCE_def GRAVITY_def)
  then have u: "update p keys dt = integrated p keys"
    by (rule update_no_landing)
  have "vec_y (vel (update p keys dt)) = JUMP_FORCE - GRAVITY" "\<not> grounded (update p keys dt)"
    using assms by (simp_all add: u integrated_vel_y integrated_grounded)
  with j update_landing [of q k dt'] show ?thesis by blast
qed

text \<open>The flight after a jump from rest on the floor with the key held for the first
  tick only: after 29 ticks the player is back at height 0, still airborne and falling.\<close>

lemma flight_29:
  "run_ticks (jump_keys # replicate 28 no_keys) floor_state =
     \<lparr>pos = Vector3 0 0 0, vel = Vector3 0 (- 16.8) 0, yaw = 0, grounded = False,
      walk_cycle = 0\<rparr>"
  apply (simp add: numeral_eq_Suc run_ticks_Cons run_ticks_Nil)
  apply (simp add: update_defs jump_keys_def no_keys_def floor_state_def Vector3_def Let_def
      physics_defs input_forward_def input_turning_def input_speed_def)
  done

theorem jump_transition_witness:
  "grounded floor_state \<and> jump_keys K_SPACE \<and> 0 \<le> vec_y (pos floor_state) \<and>
   vec_y (vel (update floor_state jump_keys (1 / 60))) = 16.8 \<and>
   \<not> grounded (update floor_state jump_keys (1 / 60)) \<and>
   0 \<le> vec_y (pos (run_ticks (jump_keys # replicate 28 no_keys) floor_state)) \<and>
   vec_y (pos (integrated (run_ticks (jump_keys # replicate 28 no_keys) floor_state) no_keys)) < 0 \<and>
   vec_y (pos (run_ticks (jump_keys # replicate 29 no_keys) floor_state)) = 0 \<and>
   vec_y (vel (run_ticks (jump_keys # replicate 29 no_keys) floor_state)) = 0 \<and>
   grounded (run_ticks (jump_keys # replicate 29 no_keys) floor_state)"
proof -
  let ?q = "run_ticks (jump_keys # replicate 28 no_keys) floor_state"
  have a: "grounded floor_state" "jump_keys K_SPACE" "0 \<le> vec_y (pos floor_state)"
    by (simp_all add: floor_state_def jump_keys_def Vector3_def)
  have b: "0 \<le> vec_y (pos ?q)"
    by (simp add: flight_29 Vector3_def)
  have c: "vec_y (pos (integrated ?q no_keys)) < 0"
    unfolding integrated_pos_y flight_29 by (simp add: no_keys_def Vector3_def GRAVITY_def)
  have "replicate 29 no_keys = replicate 28 no_keys @ [no_keys]"
    by (simp add: numeral_eq_Suc replicate_append_same)
  then have d: "run_ticks (jump_keys # replicate 29 no_keys) floor_state = update ?q no_keys (1 / 60)"
    by (simp add: run_ticks_def)
  have e: "JUMP_FORCE - GRAVITY = 16.8"
    by (simp add: JUMP_FORCE_def GRAVITY_def)
  from jump_transition [where p = floor_state and keys = jump_keys and dt = "1 / 60"
      and q = ?q and k = no_keys and dt' = "1 / 60", OF a] a b c show ?thesis
    unfolding d e by blast
qed

lemma input_forward_zero_iff:
  "input_forward keys = 0 \<longleftrightarrow> \<not> (keys K_UP \<or> keys K_w \<or> keys K_DOWN \<or> keys K_s)"
  by (simp add: input_forward_def)

text \<open>
  With only the backward key held, so that no forward key is down, a grounded player's
  walk cycle advances from 2 to 2.3 instead of returning to 0. The increments at the two
  speed tiers are 0.3 and 0.45 for the speeds 0.8 and 1.4: their ratios to the speed
  differ, so the advance is not proportional to the speed.
\<close>

theorem walk_cycle_backward_counterexample:
  "\<not> back_keys K_UP \<and> \<not> back_keys K_w \<and> grounded walking_state \<and>
   walk_cycle walking_state = 2 \<and>
   walk_cycle (update walking_state back_keys (1 / 60)) = 2.3 \<and>
   input_speed walk_keys = 0.8 \<and> input_speed run_keys = 1.4 \<and>
   walk_cycle (update walking_state walk_keys (1 / 60)) - walk_cycle walking_state = 0.3 \<and>
   walk_cycle (update walking_state run_keys (1 / 60)) - walk_cycle walking_state = 0.45 \<and>
   (walk_cycle (update walking_state run_keys (1 / 60)) - walk_cycle walking_state)
      / input_speed run_keys
    \<noteq> (walk_cycle (update walking_state walk_keys (1 / 60)) - walk_cycle walking_state)
      / input_speed walk_keys"
  by (simp add: update_defs Let_def input_speed_def input_forward_def input_turning_def
      back_keys_def walk_keys_def run_keys_def walking_state_def floor_state_def
      MOVE_SPEED_def RUN_SPEED_def)

text \<open>
  C9, as the code has it. The walk cycle after one update is exactly 0 when none of the
  forward and backward keys is held. When one of them is held and the player is grounded
  at the start of the tick, it grows by the fixed amount 0.3 without a run key and 0.45
  with a run key, whatever the velocity; when one of them is held and the player is
  airborne, it is unchanged.
\<close>

theorem walk_cycle_law:
  "(\<not> (keys K_UP \<or> keys K_w \<or> keys K_DOWN \<or> keys K_s) \<longrightarrow>
      walk_cycle (update p keys dt) = 0) \<and>
   ((keys K_UP \<or> keys K_w \<or> keys K_DOWN \<or> keys K_s) \<and> grounded p \<and>
      \<not> (keys K_LSHIFT \<or> keys K_RSHIFT) \<longrightarrow>
      walk_cycle (update p keys dt) = walk_cycle p + 0.3) \<and>
   ((keys K_UP \<or> keys K_w \<or> keys K_DOWN \<or> keys K_s) \<and> grounded p \<and>
      (keys K_LSHIFT \<or> keys K_RSHIFT) \<longrightarrow>
      walk_cycle (update p keys dt) = walk_cycle p + 0.45) \<and>
   ((keys K_UP \<or> keys K_w \<or> keys K_DOWN \<or> keys K_s) \<and> \<not> grounded p \<longrightarrow>
      walk_cycle (update p keys dt) = walk_cycle p)"
proof -
  have e: "(keys K_UP \<or> keys K_w \<or> keys K_DOWN \<or> keys K_s) = (input_forward keys \<noteq> 0)"
    by (simp add: input_forward_def)
  have z: "input_forward keys = 0 \<Longrightarrow> walk_cycle (update p keys dt) = 0"
    by (simp add: update_defs Let_def)
  have a: "input_forward keys \<noteq> 0 \<Longrightarrow> \<not> grounded p \<Longrightarrow>
      walk_cycle (update p keys dt) = walk_cycle p"
    by (simp add: update_defs Let_def)
  have g: "input_forward keys \<noteq> 0 \<Longrightarrow> grounded p \<Longrightarrow>
      walk_cycle (update p keys dt) =
        walk_cycle p + 0.3 * (if input_speed keys = RUN_SPEED then 1.5 else 1)"
    by (simp add: update_defs Let_def)
  have r: "keys K_LSHIFT \<or> keys K_RSHIFT \<Longrightarrow> input_speed keys = RUN_SPEED"
    by (simp add: input_speed_def)
  have m: "\<not> (keys K_LSHIFT \<or> keys K_RSHIFT) \<Longrightarrow> input_speed keys \<noteq> RUN_SPEED"
    by (simp add: input_speed_def MOVE_SPEED_def RUN_SPEED_def)
  have g1: "input_forward keys \<noteq> 0 \<Longrightarrow> grounded p \<Longrightarrow> \<not> (keys K_LSHIFT \<or> keys K_RSHIFT) \<Longrightarrow>
      walk_cycle (update p keys dt) = walk_cycle p + 0.3"
    using g m by simp
  have g2: "input_forward keys \<noteq> 0 \<Longrightarrow> grounded p \<Longrightarrow> keys K_LSHIFT \<or> keys K_RSHIFT \<Longrightarrow>
      walk_cycle (update p keys dt) = walk_cycle p + 0.45"
    using g r by simp
  show ?thesis unfolding e using z a g1 g2 by blast
qed

theorem walk_cycle_law_witness:
  "\<not> (no_keys K_UP \<or> no_keys K_w \<or> no_keys K_DOWN \<or> no_keys K_s) \<and>
   walk_cycle (update walking_state no_keys (1 / 60)) = 0 \<and>
   walk_keys K_w \<and> grounded walking_state \<and> \<not> walk_keys K_LSHIFT \<and> \<not> walk_keys K_RSHIFT \<and>
   walk_cycle (update walking_state walk_keys (1 / 60)) = 2.3 \<and>
   back_keys K_s \<and> \<not> back_keys K_LSHIFT \<and> \<not> back_keys K_RSHIFT \<and>
   walk_cycle (update walking_state back_keys (1 / 60)) = 2.3 \<and>
   run_keys K_w \<and> run_keys K_LSHIFT \<and>
   walk_cycle (update walking_state run_keys (1 / 60)) = 2.45 \<and>
   \<not> grounded airborne_state \<and>
   walk_cycle (update airborne_state walk_keys (1 / 60)) = 2"
proof -
  have k: "\<not> (no_keys K_UP \<or> no_keys K_w \<or> no_keys K_DOWN \<or> no_keys K_s)"
    "walk_keys K_w" "\<not> walk_keys K_LSHIFT" "\<not> walk_keys K_RSHIFT"
    "back_keys K_s" "\<not> back_keys K_LSHIFT" "\<not> back_keys K_RSHIFT"
    "run_keys K_w" "run_keys K_LSHIFT"
    by (simp_all add: no_keys_def walk_keys_def back_keys_def run_keys_def)
  have s: "grounded walking_state" "walk_cycle walking_state = 2"
    "\<not> grounded airborne_state" "walk_cycle airborne_state = 2"
    by (simp_all add: walking_state_def airborne_state_def floor_state_def Player_init_def)
  from walk_cycle_law [of no_keys walking_state "1 / 60"]
    walk_cycle_law [of walk_keys walking_state "1 / 60"]
    walk_cycle_law [of back_keys walking_state "1 / 60"]
    walk_cycle_law [of run_keys walking_state "1 / 60"]
    walk_cycle_law [of walk_keys airborne_state "1 / 60"]
    k s
  show ?thesis by simp
qed

section \<open>Friction\<close>


lemma update_vel_x:
  "vec_x (vel (update p keys dt)) =
     (vec_x (vel p) + sin (yaw p + of_int (input_turning keys) * TURN_SPEED) * input_speed keys
        * of_int (input_forward keys)) * FRICTION"
  by (simp add: update_defs Let_def)

lemma update_vel_z:
  "vec_z (vel (update p keys dt)) =
     (vec_z (vel p) + cos (yaw p + of_int (input_turning keys) * TURN_SPEED) * input_speed keys
        * of_int (input_forward keys)) * FRICTION"
  by (simp add: update_defs Let_def)

lemma run_ticks_vel:
  "\<forall>k \<in> set ks. input_forward k = 0 \<Longrightarrow>
     vec_x (vel (run_ticks ks p)) = vec_x (vel p) * FRICTION ^ length ks \<and>
     vec_z (vel (run_ticks ks p)) = vec_z (vel p) * FRICTION ^ length ks"
proof (induction ks arbitrary: p)
  case Nil
  show ?case by (simp add: run_ticks_Nil)
next
  case (Cons k ks)
  then have "input_forward k = 0" and "\<forall>k \<in> set ks. input_forward k = 0" by simp_all
  with Cons.IH [of "update p k (1 / 60)"] show ?case
    by (simp add: run_ticks_Cons update_vel_x update_vel_z mult.assoc)
qed

lemma FRICTION_bounds: "0 < FRICTION" "FRICTION < 1"
  by (simp_all add: FRICTION_def)

lemma run_ticks_hspeed:
  assumes "\<forall>k \<in> set ks. input_forward k = 0"
  shows "hspeed (run_ticks ks p) = hspeed p * FRICTION ^ length ks"
proof -
  have "hspeed (run_ticks ks p) =
      sqrt (((vec_x (vel p))\<^sup>2 + (vec_z (vel p))\<^sup>2) * (FRICTION ^ length ks)\<^sup>2)"
    using run_ticks_vel [OF assms, of p] by (simp add: hspeed_def power_mult_distrib distrib_right)
  also have "\<dots> = hspeed p * FRICTION ^ length ks"
    using FRICTION_bounds by (simp add: hspeed_def real_sqrt_mult)
  finally show ?thesis .
qed

lemma hspeed_converges:
  assumes "0 < eps"
  shows "\<exists>N. \<forall>ks. N \<le> length ks \<and> (\<forall>k \<in> set ks. input_forward k = 0) \<longrightarrow>
           hspeed (run_ticks ks p) < eps"
proof (cases "hspeed p = 0")
  case True
  then show ?thesis using assms by (auto simp add: run_ticks_hspeed)
next
  case False
  have nn: "0 \<le> hspeed p" by (simp add: hspeed_def)
  with False have pos: "0 < hspeed p" by simp
  then have "0 < eps / hspeed p" using assms by simp
  then obtain N where N: "FRICTION ^ N < eps / hspeed p"
    using real_arch_pow_inv FRICTION_bounds by blast
  have "hspeed (run_ticks ks p) < eps"
    if "N \<le> length ks" and "\<forall>k \<in> set ks. input_forward k = 0" for ks
  proof -
    have "FRICTION ^ length ks \<le> FRICTION ^ N"
      using that FRICTION_bounds by (simp add: power_decreasing)
    with N have "FRICTION ^ length ks < eps / hspeed p" by simp
    then have "hspeed p * FRICTION ^ length ks < eps"
      using pos by (simp add: pos_less_divide_eq mult.commute)
    then show ?thesis using that by (simp add: run_ticks_hspeed)
  qed
  then show ?thesis by blast
qed

text \<open>
  C6. Every update adds the input impulse (zero without forward or backward input) to the
  horizontal velocity and multiplies the result by \<open>FRICTION\<close>, which lies strictly
  between 0 and 1. Over a run of ticks without forward or backward input, both horizontal
  components, and so the horizontal speed, are the starting values times \<open>FRICTION\<close> to
  the number of ticks; and for every positive bound there is a number of ticks after
  which the speed stays below it.
\<close>

theorem friction_law:
  "vec_x (vel (update p keys dt)) =
     (vec_x (vel p) + sin (yaw p + of_int (input_turning keys) * TURN_SPEED) * input_speed keys
        * of_int (input_forward keys)) * FRICTION \<and>
   vec_z (vel (update p keys dt)) =
     (vec_z (vel p) + cos (yaw p + of_int (input_turning keys) * TURN_SPEED) * input_speed keys
        * of_int (input_forward keys)) * FRICTION \<and>
   0 < FRICTION \<and> FRICTION < 1 \<and>
   ((\<forall>k \<in> set ks. input_forward k = 0) \<longrightarrow>
      vec_x (vel (run_ticks ks p)) = vec_x (vel p) * FRICTION ^ length ks \<and>
      vec_z (vel (run_ticks ks p)) = vec_z (vel p) * FRICTION ^ length ks \<and>
      hspeed (run_ticks ks p) = hspeed p * FRICTION ^ length ks) \<and>
   (0 < eps \<longrightarrow>
      (\<exists>N. \<forall>ks. N \<le> length ks \<and> (\<forall>k \<in> set ks. input_forward k = 0) \<longrightarrow>
         hspeed (run_ticks ks p) < eps))"
  using update_vel_x update_vel_z FRICTION_bounds run_ticks_vel run_ticks_hspeed
    hspeed_converges by blast

lemma hspeed_glide: "hspeed glide_state = 5"
proof -
  have "(3::real)\<^sup>2 + 4\<^sup>2 = 5\<^sup>2" by simp
  then show ?thesis by (simp add: hspeed_def glide_state_def Vector3_def del: power2_eq_square)
qed

theorem friction_law_witness:
  "input_forward no_keys = 0 \<and>
   vec_x (vel (run_ticks [no_keys, no_keys] glide_state)) = 2.0172 \<and>
   vec_z (vel (run_ticks [no_keys, no_keys] glide_state)) = 2.6896 \<and>
   hspeed (run_ticks [no_keys, no_keys] glide_state) = 3.362 \<and>
   hspeed (run_ticks (replicate 9 no_keys) glide_state) < 1 \<and>
   (\<exists>N. \<forall>ks. N \<le> length ks \<and> (\<forall>k \<in> set ks. input_forward k = 0) \<longrightarrow>
         hspeed (run_ticks ks glide_state) < 1)"
proof -
  have z: "input_forward no_keys = 0"
    by (simp add: input_forward_def no_keys_def)
  then have a: "\<forall>k \<in> set [no_keys, no_keys]. input_forward k = 0"
    and a9: "\<forall>k \<in> set (replicate 9 no_keys). input_forward k = 0"
    by simp_all
  have b: "vec_x (vel glide_state) = 3" "vec_z (vel glide_state) = 4"
    by (simp_all add: glide_state_def Vector3_def)
  have c: "(0::real) < 1" by simp
  have e: "5 * (41 / 50) ^ 9 < (1::real)" by (simp add: power_divide)
  from friction_law [of glide_state no_keys "1 / 60" "replicate 9 no_keys" 1] a9
  have d: "hspeed (run_ticks (replicate 9 no_keys) glide_state) < 1"
    by (simp add: hspeed_glide FRICTION_def e)
  from friction_law [of glide_state no_keys "1 / 60" "[no_keys, no_keys]" 1] a c z d
  show ?thesis
    by (simp add: b hspeed_glide FRICTION_def e)
qed

section \<open>Camera smoothing\<close>


lemma smooth_axis:
  fixes c t :: real
  shows "t - (c + (t - c) * CAM_SMOOTH) = (t - c) * (1 - CAM_SMOOTH)"
  by (simp add: algebra_simps)

lemma smooth_axis_abs:
  fixes c t :: real
  shows "\<bar>t - (c + (t - c) * CAM_SMOOTH)\<bar> = \<bar>t - c\<bar> * (1 - CAM_SMOOTH)"
proof -
  have "0 \<le> 1 - CAM_SMOOTH" by (simp add: CAM_SMOOTH_def)
  then show ?thesis unfolding smooth_axis by (simp add: abs_mult)
qed

lemma cam_pos_update_camera:
  "cam_pos (update_camera g) =
     \<lparr>vec_x = vec_x (cam_pos g) + (vec_x (camera_target g) - vec_x (cam_pos g)) * CAM_SMOOTH,
      vec_y = vec_y (cam_pos g) + (vec_y (camera_target g) - vec_y (cam_pos g)) * CAM_SMOOTH,
      vec_z = vec_z (cam_pos g) + (vec_z (camera_target g) - vec_z (cam_pos g)) * CAM_SMOOTH\<rparr>"
  by (simp add: update_camera_def Let_def)

lemma cam_yaw_update_camera:
  "cam_yaw (update_camera g) =
     py_atan2 (vec_x (pos (player g)) - vec_x (cam_pos (update_camera g)))
              (vec_z (pos (player g)) - vec_z (cam_pos (update_camera g)))"
  by (simp add: update_camera_def Let_def)

lemma update_camera_ignores_yaw: "update_camera (g\<lparr>cam_yaw := a\<rparr>) = update_camera g"
  by (simp add: update_camera_def camera_target_def Let_def)

text \<open>The model of \<open>math.atan2\<close> is the angle of the point \<open>(a, b)\<close> in polar
  coordinates, in the range from \<open>-pi\<close> (excluded) to \<open>pi\<close>; so the updated camera faces the
  player.\<close>

lemma sqrt_scale:
  fixes a b :: real
  assumes "a \<noteq> 0"
  shows "sqrt (a\<^sup>2 + b\<^sup>2) = \<bar>a\<bar> * sqrt (1 + (b / a)\<^sup>2)"
proof -
  have "a\<^sup>2 + b\<^sup>2 = a\<^sup>2 * (1 + (b / a)\<^sup>2)"
    using assms by (simp add: field_simps power2_eq_square)
  then show ?thesis by (simp add: real_sqrt_mult)
qed

lemma sqrt_one_plus_pos: "0 < sqrt (1 + (x::real)\<^sup>2)"
  by (simp add: add_pos_nonneg)

lemma py_atan2_polar:
  assumes "a \<noteq> 0 \<or> b \<noteq> 0"
  shows "sqrt (a\<^sup>2 + b\<^sup>2) * cos (py_atan2 b a) = a \<and>
         sqrt (a\<^sup>2 + b\<^sup>2) * sin (py_atan2 b a) = b"
proof -
  let ?s = "sqrt (1 + (b / a)\<^sup>2)"
  have s: "?s \<noteq> 0" using sqrt_one_plus_pos [of "b / a"] by simp
  consider "0 < a" | "a < 0" "0 \<le> b" | "a < 0" "b < 0" | "a = 0" "0 < b" | "a = 0" "b < 0"
    using assms by linarith
  then show ?thesis
  proof cases
    case 1
    then show ?thesis using s
      by (simp add: py_atan2_def sqrt_scale [of a b] cos_arctan sin_arctan)
  next
    case 2
    then show ?thesis using s
      by (simp add: py_atan2_def sqrt_scale [of a b] cos_arctan sin_arctan)
  next
    case 3
    then show ?thesis using s
      by (simp add: py_atan2_def sqrt_scale [of a b] cos_arctan sin_arctan cos_diff sin_diff)
  next
    case 4
    then show ?thesis by (simp add: py_atan2_def)
  next
    case 5
    then show ?thesis by (simp add: py_atan2_def)
  qed
qed

lemma py_atan2_range: "- pi < py_atan2 b a \<and> py_atan2 b a \<le> pi"
proof -
  have l: "- (pi / 2) < arctan (b / a)" and u: "arctan (b / a) < pi / 2"
    by (rule arctan_lbound, rule arctan_ubound)
  consider "0 < a" | "a < 0" "0 \<le> b" | "a < 0" "b < 0" | "a = 0"
    by linarith
  then show ?thesis
  proof cases
    case 1
    then have "py_atan2 b a = arctan (b / a)" by (simp add: py_atan2_def)
    with l u pi_gt_zero show ?thesis by linarith
  next
    case 2
    then have "b / a \<le> 0" by (simp add: divide_nonneg_neg)
    then have "arctan (b / a) \<le> 0" using arctan_monotone' [of "b / a" 0] by simp
    moreover from 2 have "py_atan2 b a = arctan (b / a) + pi" by (simp add: py_atan2_def)
    ultimately show ?thesis using l pi_gt_zero by linarith
  next
    case 3
    then have "0 < b / a" by (simp add: divide_neg_neg)
    then have "0 < arctan (b / a)" using arctan_monotone [of 0 "b / a"] by simp
    moreover from 3 have "py_atan2 b a = arctan (b / a) - pi" by (simp add: py_atan2_def)
    ultimately show ?thesis using u pi_gt_zero by linarith
  next
    case 4
    then have "py_atan2 b a = pi / 2 \<or> py_atan2 b a = - (pi / 2) \<or> py_atan2 b a = 0"
      by (simp add: py_atan2_def)
    with pi_gt_zero show ?thesis by linarith
  qed
qed

lemma update_camera_faces_player:
  fixes g :: Game
  defines "dx \<equiv> vec_x (pos (player g)) - vec_x (cam_pos (update_camera g))"
    and "dz \<equiv> vec_z (pos (player g)) - vec_z (cam_pos (update_camera g))"
  assumes "dz \<noteq> 0 \<or> dx \<noteq> 0"
  shows "sqrt (dz\<^sup>2 + dx\<^sup>2) * sin (cam_yaw (update_camera g)) = dx \<and>
         sqrt (dz\<^sup>2 + dx\<^sup>2) * cos (cam_yaw (update_camera g)) = dz"
  using py_atan2_polar [OF assms(3)] unfolding dx_def dz_def
  by (simp add: cam_yaw_update_camera)

text \<open>
  C7. One camera update, on each axis separately: the distance from the new camera
  position to the target computed in that update is the old distance times
  \<open>1 - CAM_SMOOTH\<close>. The target is computed from the player as it is when the camera is
  updated, which in a game tick is after the player's own update. The new yaw is
  \<open>atan2(dx, dz)\<close> of the vector from the new camera position to the player; the old
  yaw has no influence on the result, and the player is left unchanged.
\<close>

theorem camera_smoothing:
  "\<bar>vec_x (camera_target g) - vec_x (cam_pos (update_camera g))\<bar> =
     \<bar>vec_x (camera_target g) - vec_x (cam_pos g)\<bar> * (1 - CAM_SMOOTH) \<and>
   \<bar>vec_y (camera_target g) - vec_y (cam_pos (update_camera g))\<bar> =
     \<bar>vec_y (camera_target g) - vec_y (cam_pos g)\<bar> * (1 - CAM_SMOOTH) \<and>
   \<bar>vec_z (camera_target g) - vec_z (cam_pos (update_camera g))\<bar> =
     \<bar>vec_z (camera_target g) - vec_z (cam_pos g)\<bar> * (1 - CAM_SMOOTH) \<and>
   cam_yaw (update_camera g) =
     py_atan2 (vec_x (pos (player g)) - vec_x (cam_pos (update_camera g)))
              (vec_z (pos (player g)) - vec_z (cam_pos (update_camera g))) \<and>
   update_camera (g\<lparr>cam_yaw := a\<rparr>) = update_camera g \<and>
   player (update_camera g) = player g \<and>
   game_tick g keys = update_camera (g\<lparr>player := update (player g) keys (1 / 60)\<rparr>)"
proof -
  have "player (update_camera g) = player g"
    by (simp add: update_camera_def Let_def)
  moreover have "cam_yaw (update_camera g) =
     py_atan2 (vec_x (pos (player g)) - vec_x (cam_pos (update_camera g)))
              (vec_z (pos (player g)) - vec_z (cam_pos (update_camera g)))"
    by (rule cam_yaw_update_camera)
  ultimately show ?thesis
    by (simp add: cam_pos_update_camera smooth_axis_abs update_camera_ignores_yaw game_tick_def)
qed

theorem camera_smoothing_witness:
  "camera_target Game_init = Vector3 0 145 (- 620) \<and>
   cam_pos (update_camera Game_init) = Vector3 0 112.8 (- 647.6) \<and>
   \<bar>145 - vec_y (cam_pos (update_camera Game_init))\<bar> = 35 * (1 - CAM_SMOOTH) \<and>
   \<bar>- 620 - vec_z (cam_pos (update_camera Game_init))\<bar> = 30 * (1 - CAM_SMOOTH) \<and>
   cam_yaw (update_camera Game_init) = 0 \<and>
   cam_yaw (update_camera (Game_init\<lparr>cam_yaw := 1\<rparr>)) = 0"
proof -
  have t: "camera_target Game_init = Vector3 0 145 (- 620)"
    by (simp add: camera_target_def Game_init_def Player_init_def Vector3_def)
  have c: "cam_pos (update_camera Game_init) = Vector3 0 112.8 (- 647.6)"
    by (simp add: cam_pos_update_camera t) (simp add: Game_init_def Vector3_def CAM_SMOOTH_def)
  have p: "vec_x (pos (player Game_init)) = 0" "vec_z (pos (player Game_init)) = - 280"
    by (simp_all add: Game_init_def Player_init_def Vector3_def)
  have o: "cam_pos Game_init = Vector3 0 110 (- 650)"
    by (simp add: Game_init_def)
  from camera_smoothing [of Game_init 1 no_keys] show ?thesis
    unfolding t c p o by (simp add: Vector3_def py_atan2_def)
qed

section \<open>Projection\<close>

lemma project_triangle_near:
  "near_reject (rot_z (tri_v1 tri) cam_x cam_z cos_yaw sin_yaw)
     (rot_z (tri_v2 tri) cam_x cam_z cos_yaw sin_yaw)
     (rot_z (tri_v3 tri) cam_x cam_z cos_yaw sin_yaw) \<Longrightarrow>
   project_triangle tri cam_x cam_y cam_z cos_yaw sin_yaw width height half_w half_h = None"
  by (simp add: project_triangle_def Let_def)

lemma project_triangle_kept:
  "\<not> near_reject (rot_z (tri_v1 tri) cam_x cam_z cos_yaw sin_yaw)
     (rot_z (tri_v2 tri) cam_x cam_z cos_yaw sin_yaw)
     (rot_z (tri_v3 tri) cam_x cam_z cos_yaw sin_yaw) \<Longrightarrow>
   project_triangle tri cam_x cam_y cam_z cos_yaw sin_yaw width height half_w half_h =
     (let p1 = screen_point (rot_x (tri_v1 tri) cam_x cam_z cos_yaw sin_yaw) (vec_y (tri_v1 tri) - cam_y)
                 (clamp_depth (rot_z (tri_v1 tri) cam_x cam_z cos_yaw sin_yaw)) half_w half_h;
          p2 = screen_point (rot_x (tri_v2 tri) cam_x cam_z cos_yaw sin_yaw) (vec_y (tri_v2 tri) - cam_y)
                 (clamp_depth (rot_z (tri_v2 tri) cam_x cam_z cos_yaw sin_yaw)) half_w half_h;
          p3 = screen_point (rot_x (tri_v3 tri) cam_x cam_z cos_yaw sin_yaw) (vec_y (tri_v3 tri) - cam_y)
                 (clamp_depth (rot_z (tri_v3 tri) cam_x cam_z cos_yaw sin_yaw)) half_w half_h
      in if bounds_reject width height p1 p2 p3 then None
         else Some (sum_list (clamped_depths tri cam_x cam_z cos_yaw sin_yaw) * 0.33333,
                    [p1, p2, p3], tri_color tri))"
  by (simp add: project_triangle_def Let_def clamped_depths_def add.assoc)

text \<open>
  C2. With \<open>rz1\<close>, \<open>rz2\<close>, \<open>rz3\<close> the camera-relative depths of the three vertices: when
  all three are below 5 the projection returns no result; the near-plane test is the
  conjunction of the three comparisons; and when at least one depth is 5 or more the
  near-plane test does not reject, so the projection returns no result exactly when the
  screen-bounds test of step 5 rejects the projected points.
\<close>

theorem near_plane_rejection:
  fixes tri :: Triangle and cam_x cam_z cos_yaw sin_yaw :: real
  defines "rz1 \<equiv> rot_z (tri_v1 tri) cam_x cam_z cos_yaw sin_yaw"
    and "rz2 \<equiv> rot_z (tri_v2 tri) cam_x cam_z cos_yaw sin_yaw"
    and "rz3 \<equiv> rot_z (tri_v3 tri) cam_x cam_z cos_yaw sin_yaw"
  shows "(rz1 < 5 \<and> rz2 < 5 \<and> rz3 < 5 \<longrightarrow>
            project_triangle tri cam_x cam_y cam_z cos_yaw sin_yaw width height half_w half_h = None) \<and>
         (near_reject rz1 rz2 rz3 \<longleftrightarrow> rz1 < 5 \<and> rz2 < 5 \<and> rz3 < 5) \<and>
         (5 \<le> rz1 \<or> 5 \<le> rz2 \<or> 5 \<le> rz3 \<longrightarrow>
            (project_triangle tri cam_x cam_y cam_z cos_yaw sin_yaw width height half_w half_h = None
             \<longleftrightarrow>
             bounds_reject width height
               (screen_point (rot_x (tri_v1 tri) cam_x cam_z cos_yaw sin_yaw)
                  (vec_y (tri_v1 tri) - cam_y) (clamp_depth rz1) half_w half_h)
               (screen_point (rot_x (tri_v2 tri) cam_x cam_z cos_yaw sin_yaw)
                  (vec_y (tri_v2 tri) - cam_y) (clamp_depth rz2) half_w half_h)
               (screen_point (rot_x (tri_v3 tri) cam_x cam_z cos_yaw sin_yaw)
                  (vec_y (tri_v3 tri) - cam_y) (clamp_depth rz3) half_w half_h)))"
proof -
  have a: "near_reject rz1 rz2 rz3 \<longleftrightarrow> rz1 < 5 \<and> rz2 < 5 \<and> rz3 < 5"
    by (simp add: near_reject_def)
  have b: "project_triangle tri cam_x cam_y cam_z cos_yaw sin_yaw width height half_w half_h = None"
    if "rz1 < 5 \<and> rz2 < 5 \<and> rz3 < 5"
    using that a project_triangle_near unfolding rz1_def rz2_def rz3_def by blast
  have c: "project_triangle tri cam_x cam_y cam_z cos_yaw sin_yaw width height half_w half_h = None
             \<longleftrightarrow>
             bounds_reject width height
               (screen_point (rot_x (tri_v1 tri) cam_x cam_z cos_yaw sin_yaw)
                  (vec_y (tri_v1 tri) - cam_y) (clamp_depth rz1) half_w half_h)
               (screen_point (rot_x (tri_v2 tri) cam_x cam_z cos_yaw sin_yaw)
                  (vec_y (tri_v2 tri) - cam_y) (clamp_depth rz2) half_w half_h)
               (screen_point (rot_x (tri_v3 tri) cam_x cam_z cos_yaw sin_yaw)
                  (vec_y (tri_v3 tri) - cam_y) (clamp_depth rz3) half_w half_h)"
    if "5 \<le> rz1 \<or> 5 \<le> rz2 \<or> 5 \<le> rz3"
  proof -
    from that have "\<not> near_reject rz1 rz2 rz3" unfolding a by auto
    then show ?thesis
      unfolding rz1_def rz2_def rz3_def
      by (simp add: project_triangle_kept Let_def)
  qed
  from a b c show ?thesis by blast
qed

lemma rot_plain: "rot_x v 0 0 1 0 = vec_x v" "rot_z v 0 0 1 0 = vec_z v"
  by (simp_all add: rot_x_def rot_z_def)

theorem near_plane_rejection_witness:
  "rot_z (tri_v1 behind_tri) 0 0 1 0 < 5 \<and> rot_z (tri_v2 behind_tri) 0 0 1 0 < 5 \<and>
   rot_z (tri_v3 behind_tri) 0 0 1 0 < 5 \<and>
   project_triangle behind_tri 0 0 0 1 0 400 300 200 150 = None \<and>
   5 \<le> rot_z (tri_v2 straddle_tri) 0 0 1 0 \<and>
   rot_z (tri_v1 straddle_tri) 0 0 1 0 < 5 \<and>
   project_triangle straddle_tri 0 0 0 1 0 400 300 200 150 \<noteq> None"
proof -
  have a: "rot_z (tri_v1 behind_tri) 0 0 1 0 < 5 \<and> rot_z (tri_v2 behind_tri) 0 0 1 0 < 5 \<and>
      rot_z (tri_v3 behind_tri) 0 0 1 0 < 5"
    by (simp add: rot_plain behind_tri_def Triangle_def Vector3_def)
  have b: "5 \<le> rot_z (tri_v2 straddle_tri) 0 0 1 0" "rot_z (tri_v1 straddle_tri) 0 0 1 0 < 5"
    by (simp_all add: rot_plain straddle_tri_def Triangle_def Vector3_def)
  have c: "\<not> bounds_reject 400 300
               (screen_point (rot_x (tri_v1 straddle_tri) 0 0 1 0)
                  (vec_y (tri_v1 straddle_tri) - 0) (clamp_depth (rot_z (tri_v1 straddle_tri) 0 0 1 0)) 200 150)
               (screen_point (rot_x (tri_v2 straddle_tri) 0 0 1 0)
                  (vec_y (tri_v2 straddle_tri) - 0) (clamp_depth (rot_z (tri_v2 straddle_tri) 0 0 1 0)) 200 150)
               (screen_point (rot_x (tri_v3 straddle_tri) 0 0 1 0)
                  (vec_y (tri_v3 straddle_tri) - 0) (clamp_depth (rot_z (tri_v3 straddle_tri) 0 0 1 0)) 200 150)"
    by (simp add: rot_plain straddle_tri_def Triangle_def Vector3_def bounds_reject_def
        screen_point_def clamp_depth_def)
  from near_plane_rejection [of behind_tri 0 0 1 0 0 400 300 200 150] a
  have d: "project_triangle behind_tri 0 0 0 1 0 400 300 200 150 = None" by blast
  from near_plane_rejection [of straddle_tri 0 0 1 0 0 400 300 200 150] b c
  have e: "project_triangle straddle_tri 0 0 0 1 0 400 300 200 150 \<noteq> None" by blast
  from a b d e show ?thesis by blast
qed

lemma clamped_depths_sum_pos: "0 < sum_list (clamped_depths tri cam_x cam_z cos_yaw sin_yaw)"
  by (simp add: clamped_depths_def clamp_depth_def max_def)

lemma project_triangle_depth:
  assumes "project_triangle tri cam_x cam_y cam_z cos_yaw sin_yaw width height half_w half_h
             = Some (d, pts, col)"
  shows "length pts = 3 \<and> col = tri_color tri \<and>
         d = sum_list (clamped_depths tri cam_x cam_z cos_yaw sin_yaw) * 0.33333 \<and>
         d < mean (clamped_depths tri cam_x cam_z cos_yaw sin_yaw)"
proof -
  have n: "\<not> near_reject (rot_z (tri_v1 tri) cam_x cam_z cos_yaw sin_yaw)
     (rot_z (tri_v2 tri) cam_x cam_z cos_yaw sin_yaw)
     (rot_z (tri_v3 tri) cam_x cam_z cos_yaw sin_yaw)"
    using assms project_triangle_near by fastforce
  from assms have r: "length pts = 3 \<and> col = tri_color tri \<and>
         d = sum_list (clamped_depths tri cam_x cam_z cos_yaw sin_yaw) * 0.33333"
    unfolding project_triangle_kept [OF n] by (auto simp add: Let_def split: if_splits)
  have "length (clamped_depths tri cam_x cam_z cos_yaw sin_yaw) = 3"
    by (simp add: clamped_depths_def)
  then have "mean (clamped_depths tri cam_x cam_z cos_yaw sin_yaw) =
      sum_list (clamped_depths tri cam_x cam_z cos_yaw sin_yaw) / 3"
    by (simp add: mean_def)
  with r clamped_depths_sum_pos [of tri cam_x cam_z cos_yaw sin_yaw] show ?thesis
    by simp
qed

text \<open>
  C1. Every result of the projection has three points and the triangle's colour, but
  its depth is the sum of the three clamped depths times 0.33333, which is strictly below
  their mean (\<open>project_triangle_depth\<close>). The sample triangle, with all three depths 10,
  passes both tests and gets depth 9.9999 where the mean is 10.
\<close>

theorem project_triangle_sample:
  "project_triangle sample_tri 0 0 0 1 0 400 300 200 150 =
     Some (9.9999, [(200, 150), (500, 150), (200, - 150)], RED) \<and>
   clamped_depths sample_tri 0 0 1 0 = [10, 10, 10] \<and>
   mean (clamped_depths sample_tri 0 0 1 0) = 10"
  by (simp add: project_triangle_def near_reject_def bounds_reject_def screen_point_def
      clamp_depth_def clamped_depths_def mean_def rot_plain sample_tri_def Triangle_def
      Vector3_def Let_def)

section \<open>Depth sort\<close>

lemma sort_screen_tris_sorted: "sorted_wrt (\<ge>) (map fst (sort_screen_tris ts))"
proof -
  have "sorted (map fst (sort_key fst (rev ts)))"
    by (rule sorted_sort_key)
  then have "sorted_wrt (\<ge>) (rev (map fst (sort_key fst (rev ts))))"
    by (simp add: sorted_wrt_rev)
  then show ?thesis by (simp add: sort_screen_tris_def rev_map)
qed

lemma sort_screen_tris_mset: "mset (sort_screen_tris ts) = mset ts"
  by (simp add: sort_screen_tris_def)

lemma sort_screen_tris_stable:
  "filter (\<lambda>t. fst t = d) (sort_screen_tris ts) = filter (\<lambda>t. fst t = d) ts"
proof -
  have "filter (\<lambda>t. fst t = d) (sort_screen_tris ts) =
      rev (filter (\<lambda>t. fst t = d) (sort_key fst (rev ts)))"
    by (simp add: sort_screen_tris_def rev_filter)
  also have "\<dots> = rev (filter (\<lambda>t. fst t = d) (rev ts))"
    by (simp only: sort_key_stable)
  also have "\<dots> = filter (\<lambda>t. fst t = d) ts"
    by (simp add: rev_filter)
  finally show ?thesis .
qed

text \<open>
  C3. For every list of projected triangles the depth sort returns a list whose depths
  never increase from one entry to the next, that has the same entries with the same
  multiplicities as the input, and in which the entries of any one depth stand in their
  input order.
\<close>

theorem depth_sort_correct:
  "sorted_wrt (\<ge>) (map fst (sort_screen_tris ts)) \<and>
   mset (sort_screen_tris ts) = mset ts \<and>
   filter (\<lambda>t. fst t = d) (sort_screen_tris ts) = filter (\<lambda>t. fst t = d) ts"
  using sort_screen_tris_sorted sort_screen_tris_mset sort_screen_tris_stable by blast

lemma sort_sample:
  "sort_screen_tris sample_screen_tris =
     [(3, [], GREEN), (3, [], GOLD), (2, [], WHITE), (1, [], RED), (1, [], BLUE)]"
  by (simp add: sort_screen_tris_def sample_screen_tris_def)

theorem depth_sort_correct_witness:
  "sort_screen_tris sample_screen_tris =
     [(3, [], GREEN), (3, [], GOLD), (2, [], WHITE), (1, [], RED), (1, [], BLUE)] \<and>
   sorted_wrt (\<ge>) [3, 3, 2, 1, 1 :: real] \<and>
   mset [(3, [], GREEN), (3, [], GOLD), (2, [], WHITE), (1, [], RED), (1 :: real, [] :: (real \<times> real) list, BLUE)]
     = mset sample_screen_tris \<and>
   filter (\<lambda>t. fst t = 1) sample_screen_tris = [(1, [], RED), (1, [], BLUE)]"
  using depth_sort_correct [of sample_screen_tris 1] unfolding sort_sample
  by (simp add: sample_screen_tris_def)

section \<open>Shading\<close>

lemma py_int_mono: "a \<le> b \<Longrightarrow> py_int a \<le> py_int b"
proof -
  assume ab: "a \<le> b"
  consider "0 \<le> a" | "b < 0" | "a < 0" "0 \<le> b" by linarith
  then show ?thesis
  proof cases
    case 1
    with ab show ?thesis by (simp add: py_int_def floor_mono)
  next
    case 2
    with ab show ?thesis by (simp add: py_int_def ceiling_mono)
  next
    case 3
    then have "\<lceil>a\<rceil> \<le> 0" and "0 \<le> \<lfloor>b\<rfloor>" by (simp_all add: ceiling_le_zero)
    then have "\<lceil>a\<rceil> \<le> \<lfloor>b\<rfloor>" by linarith
    with 3 show ?thesis by (simp add: py_int_def)
  qed
qed

lemma shade_antimono: "z1 \<le> z2 \<Longrightarrow> shade z2 \<le> shade z1"
  by (simp add: shade_def min_def)

lemma shade_bounds: "0.35 \<le> shade z" "1 - shade z \<le> 0.65"
  by (simp_all add: shade_def min_def)

lemma shade_far: "1430 \<le> z \<Longrightarrow> shade z = 0.35"
  by (simp add: shade_def min_def)

lemma shade_channel_range: "0 \<le> shade_channel c z" "shade_channel c z \<le> 255"
  by (simp_all add: shade_channel_def)

lemma shade_channel_neg: "c < 0 \<Longrightarrow> shade_channel c z = 0"
proof -
  assume "c < 0"
  moreover have "0 < shade z" by (simp add: shade_def min_def)
  ultimately have "of_int c * shade z < 0"
    by (simp add: mult_neg_pos)
  then have "py_int (of_int c * shade z) \<le> 0"
    by (simp add: py_int_def ceiling_le_zero)
  then show ?thesis by (simp add: shade_channel_def)
qed

lemma shade_channel_antimono:
  assumes "z1 \<le> z2"
  shows "shade_channel c z2 \<le> shade_channel c z1"
proof (cases "c < 0")
  case True
  then show ?thesis by (simp add: shade_channel_neg)
next
  case False
  then have "0 \<le> (of_int c :: real)" by simp
  with shade_antimono [OF assms] have "of_int c * shade z2 \<le> of_int c * shade z1"
    by (rule mult_left_mono)
  then have "py_int (of_int c * shade z2) \<le> py_int (of_int c * shade z1)"
    by (rule py_int_mono)
  then show ?thesis by (simp add: shade_channel_def)
qed

text \<open>
  C4. For a fixed colour and depths \<open>0 \<le> z1 \<le> z2\<close>, every shaded channel at \<open>z2\<close> is
  at most the same channel at \<open>z1\<close>; every shaded channel lies between 0 and 255; the
  darkening \<open>1 - shade z\<close> is at most 0.65, and is 0.65 from depth 1430 on.
\<close>

theorem shading_monotone:
  "(0 \<le> z1 \<and> z1 \<le> z2 \<longrightarrow>
      shade_channel c z2 \<le> shade_channel c z1 \<and>
      fst (shade_color (r, g, b) z2) \<le> fst (shade_color (r, g, b) z1) \<and>
      fst (snd (shade_color (r, g, b) z2)) \<le> fst (snd (shade_color (r, g, b) z1)) \<and>
      snd (snd (shade_color (r, g, b) z2)) \<le> snd (snd (shade_color (r, g, b) z1))) \<and>
   shade_color (r, g, b) z = (shade_channel r z, shade_channel g z, shade_channel b z) \<and>
   0 \<le> shade_channel c z \<and> shade_channel c z \<le> 255 \<and>
   1 - shade z \<le> 0.65 \<and> (1430 \<le> z \<longrightarrow> 1 - shade z = 0.65)"
  using shade_channel_antimono shade_channel_range shade_bounds shade_far
  by (simp add: shade_color_def)

theorem shading_monotone_witness:
  "(0::real) \<le> 0 \<and> (0::real) \<le> 1100 \<and>
   shade_color RED 0 = (220, 20, 60) \<and> shade_color RED 1100 = (110, 10, 30) \<and>
   shade_color RED 2200 = (77, 7, 21) \<and> shade_color RED 4400 = (77, 7, 21) \<and>
   1 - shade 2200 = 0.65"
proof -
  have f: "\<lfloor>77 :: real\<rfloor> = 77" "\<lfloor>7 :: real\<rfloor> = 7" "\<lfloor>21 :: real\<rfloor> = 21" by simp_all
  have a: "shade_color RED 0 = (220, 20, 60)" "shade_color RED 1100 = (110, 10, 30)"
    "shade_color RED 2200 = (77, 7, 21)" "shade_color RED 4400 = (77, 7, 21)"
    by (simp_all add: shade_color_def shade_channel_def shade_def py_int_def RED_def)
  from shading_monotone [of 0 1100 220 220 20 60 2200] a show ?thesis
    by simp
qed

section \<open>Determinism of the level\<close>

lemma appendsI: "length ts = n \<Longrightarrow> (\<And>t. f t = t @ ts) \<Longrightarrow> appends f n"
  unfolding appends_def by blast

lemma appends_errI: "length ts = n \<Longrightarrow> (\<And>t. f t = Inr (t @ ts)) \<Longrightarrow> appends_err f n"
  unfolding appends_err_def by blast

lemma appends_id: "appends (\<lambda>t. t) 0"
  by (rule appendsI [of "[]"]) simp_all

lemma appends_snoc:
  assumes "appends f n" and "m = n + length us"
  shows "appends (\<lambda>t. f t @ us) m"
proof -
  from assms(1) obtain ts where ts: "length ts = n" "\<And>t. f t = t @ ts"
    unfolding appends_def by blast
  show ?thesis
    by (rule appendsI [of "ts @ us"]) (simp_all add: ts assms(2))
qed

lemma appends_comp:
  assumes "appends f n" and "appends g k" and "m = n + k"
  shows "appends (\<lambda>t. g (f t)) m"
proof -
  from assms(1) obtain ts where ts: "length ts = n" "\<And>t. f t = t @ ts"
    unfolding appends_def by blast
  from assms(2) obtain us where us: "length us = k" "\<And>t. g t = t @ us"
    unfolding appends_def by blast
  show ?thesis
    by (rule appendsI [of "ts @ us"]) (simp_all add: ts us assms(3))
qed

lemma appends_if:
  "appends f n \<Longrightarrow> appends g n \<Longrightarrow> appends (\<lambda>t. if b then f t else g t) n"
  by (cases b) simp_all

lemma appends_prod: "(\<And>a b. appends (h a b) k) \<Longrightarrow> appends (case_prod h x) k"
  by (cases x) simp

lemma appends_fold_plain:
  assumes "\<And>x. x \<in> set xs \<Longrightarrow> appends (g x) k"
  shows "appends (fold g xs) (k * length xs)"
  using assms
proof (induction xs)
  case Nil
  show ?case using appends_id by simp
next
  case (Cons x xs)
  have "appends (\<lambda>t. fold g xs (g x t)) (k * length (x # xs))"
    by (rule appends_comp [of _ k _ "k * length xs"]) (simp_all add: Cons)
  then show ?case by (simp add: comp_def)
qed

lemma appends_fold:
  assumes "appends f n" and "\<And>x. x \<in> set xs \<Longrightarrow> appends (g x) k"
    and "m = n + k * length xs"
  shows "appends (\<lambda>t. fold g xs (f t)) m"
  by (rule appends_comp [OF assms(1) appends_fold_plain assms(3)]) (rule assms(2))

lemma appends_box:
  assumes "appends f n" and "m = n + 10"
  shows "appends (\<lambda>t. add_box (f t) cx b_y cz w h d c1 c2 c3) m"
  unfolding add_box_def Let_def by (rule appends_snoc [OF assms(1)]) (simp add: assms(2))

lemma appends_flag:
  assumes "appends f n" and "m = n + 11"
  shows "appends (\<lambda>t. add_flag (f t) cx b_y cz) m"
  unfolding add_flag_def Let_def
  by (rule appends_snoc appends_box assms(1) | simp add: assms(2))+

lemma appends_battlements:
  assumes "appends f n" and "m = n + 10 * nat count'"
  shows "appends (\<lambda>t. add_battlements (f t) cx b_y cz len is_z_axis col count') m"
  unfolding add_battlements_def Let_def
  by (rule appends_fold [OF assms(1)] appends_if appends_box appends_id | simp add: assms(2))+

lemma appends_err_Inr:
  assumes "appends f n"
  shows "appends_err (\<lambda>t. Inr (f t)) n"
proof -
  from assms obtain ts where ts: "length ts = n" "\<And>t. f t = t @ ts"
    unfolding appends_def by blast
  show ?thesis by (rule appends_errI [of ts]) (simp_all add: ts)
qed

lemma appends_err_bind:
  assumes "appends_err f n" and "appends_err g k" and "m = n + k"
  shows "appends_err (\<lambda>t. and_then (f t) g) m"
proof -
  from assms(1) obtain ts where ts: "length ts = n" "\<And>t. f t = Inr (t @ ts)"
    unfolding appends_err_def by blast
  from assms(2) obtain us where us: "length us = k" "\<And>t. g t = Inr (t @ us)"
    unfolding appends_err_def by blast
  show ?thesis
    by (rule appends_errI [of "ts @ us"]) (simp_all add: ts us and_then_def assms(3))
qed

lemma appends_err_after:
  assumes "appends f n" and "appends_err g k" and "m = n + k"
  shows "appends_err (\<lambda>t. g (f t)) m"
proof -
  from assms(1) obtain ts where ts: "length ts = n" "\<And>t. f t = t @ ts"
    unfolding appends_def by blast
  from assms(2) obtain us where us: "length us = k" "\<And>t. g t = Inr (t @ us)"
    unfolding appends_err_def by blast
  show ?thesis
    by (rule appends_errI [of "ts @ us"]) (simp_all add: ts us assms(3))
qed

lemma appends_err_prod: "(\<And>a b. appends_err (h a b) k) \<Longrightarrow> appends_err (case_prod h x) k"
  by (cases x) simp

lemma appends_err_fold_plain:
  assumes "\<And>x. x \<in> set xs \<Longrightarrow> appends_err (g x) k"
  shows "appends_err (fold_err g xs) (k * length xs)"
  using assms
proof (induction xs)
  case Nil
  show ?case by (rule appends_errI [of "[]"]) simp_all
next
  case (Cons x xs)
  have "appends_err (\<lambda>t. and_then (g x t) (fold_err g xs)) (k * length (x # xs))"
    by (rule appends_err_bind [of _ k _ "k * length xs"]) (simp_all add: Cons)
  then show ?case by simp
qed

lemma appends_err_fold:
  assumes "appends f n" and "\<And>x. x \<in> set xs \<Longrightarrow> appends_err (g x) k"
    and "m = n + k * length xs"
  shows "appends_err (\<lambda>t. fold_err g xs (f t)) m"
  by (rule appends_err_after [OF assms(1) appends_err_fold_plain assms(3)]) (rule assms(2))

lemma appends_err_cylinder:
  assumes "appends f n" and "segments \<noteq> 0" and "m = n + 3 * nat segments"
  shows "appends_err (\<lambda>t. add_cylinder (f t) cx b_y cz radius height segments c1 c2) m"
  unfolding add_cylinder_def Let_def if_not_P [OF assms(2)]
  by (rule appends_err_Inr appends_fold [OF assms(1)] appends_snoc appends_id
      | simp add: assms(3))+

lemma appends_err_cone:
  assumes "appends f n" and "segments \<noteq> 0" and "m = n + nat segments"
  shows "appends_err (\<lambda>t. add_cone (f t) cx b_y cz radius height segments c1) m"
  unfolding add_cone_def Let_def if_not_P [OF assms(2)]
  by (rule appends_err_Inr appends_fold [OF assms(1)] appends_snoc appends_id
      | simp add: assms(3))+

lemma appends_err_peach_tower:
  assumes "appends f n" and "m = n + 103"
  shows "appends_err (\<lambda>t. add_peach_tower (f t) cx b_y cz radius height roof_height c1 c2) m"
  unfolding add_peach_tower_def Let_def
  by (rule appends_err_bind appends_err_cylinder [OF assms(1)] appends_err_cone
      appends_err_Inr appends_fold appends_flag appends_box appends_id
      | simp add: assms(2))+

lemma appends_err_environment:
  assumes "appends f n" and "m = n + 62"
  shows "appends_err (\<lambda>t. build_environment (f t)) m"
  unfolding build_environment_def Let_def
  by (rule appends_err_cylinder appends_box assms(1) | simp add: assms(2))+

lemma appends_moat:
  assumes "appends f n" and "m = n + 30"
  shows "appends (\<lambda>t. build_moat (f t)) m"
  unfolding build_moat_def Let_def
  by (rule appends_box assms(1) | simp add: assms(2))+

lemma appends_bridge:
  assumes "appends f n" and "m = n + 30"
  shows "appends (\<lambda>t. build_bridge (f t)) m"
  unfolding build_bridge_def Let_def
  by (rule appends_box assms(1) | simp add: assms(2))+

lemma appends_front_stairs:
  assumes "appends f n" and "m = n + 60"
  shows "appends (\<lambda>t. build_front_stairs (f t)) m"
  unfolding build_front_stairs_def Let_def
  by (rule appends_fold [OF assms(1)] appends_box appends_id | simp add: assms(2))+

lemma appends_walls:
  assumes "appends f n" and "m = n + 320"
  shows "appends (\<lambda>t. build_walls (f t)) m"
  unfolding build_walls_def Let_def
  by (rule appends_battlements appends_box assms(1) | simp add: assms(2))+

lemma appends_err_corner_towers:
  assumes "appends f n" and "m = n + 412"
  shows "appends_err (\<lambda>t. build_corner_towers (f t)) m"
  unfolding build_corner_towers_def
  by (rule appends_err_fold [OF assms(1)] appends_err_prod appends_err_peach_tower appends_id
      | simp add: assms(2))+

lemma appends_err_main_castle:
  assumes "appends f n" and "m = n + 97"
  shows "appends_err (\<lambda>t. build_main_castle (f t)) m"
  unfolding build_main_castle_def Let_def
  by (rule appends_err_bind appends_err_cylinder appends_err_cone appends_err_Inr
      appends_flag appends_box assms(1) appends_id | simp add: assms(2))+

lemma appends_window:
  assumes "appends f n" and "m = n + 10"
  shows "appends (\<lambda>t. build_window (f t)) m"
  unfolding build_window_def
  by (rule appends_box assms(1) | simp add: assms(2))+

lemma appends_err_inner_towers:
  assumes "appends f n" and "m = n + 412"
  shows "appends_err (\<lambda>t. build_inner_towers (f t)) m"
  unfolding build_inner_towers_def
  by (rule appends_err_fold [OF assms(1)] appends_err_prod appends_err_peach_tower appends_id
      | simp add: assms(2))+

lemma appends_err_trees:
  assumes "appends f n" and "m = n + 96"
  shows "appends_err (\<lambda>t. build_trees (f t)) m"
  unfolding build_trees_def
  by (rule appends_err_fold [OF assms(1)] appends_err_prod appends_err_bind
      appends_err_cylinder appends_err_cone appends_id
      | simp add: assms(2))+

lemma appends_platforms:
  assumes "appends f n" and "m = n + 30"
  shows "appends (\<lambda>t. build_platforms (f t)) m"
  unfolding build_platforms_def
  by (rule appends_fold [OF assms(1)] appends_prod appends_box appends_id
      | simp add: assms(2))+

lemma appends_err_build: "appends_err (\<lambda>t. build t) 1559"
  unfolding build_def
  by (rule appends_err_bind appends_err_environment appends_err_corner_towers
      appends_err_main_castle appends_err_inner_towers appends_err_trees appends_err_Inr
      appends_platforms appends_window appends_walls appends_front_stairs appends_bridge
      appends_moat appends_id
      | simp)+

text \<open>
  C8. There is one list of 1559 triangles such that every execution of \<open>build\<close>, from
  whatever list it starts with, raises no error and returns that list extended by this
  one; in particular every construction of a \<open>Level\<close> yields exactly this list. Two
  executions therefore yield the same number of triangles, in the same order, with equal
  vertices and colours.
\<close>

theorem build_deterministic:
  "\<exists>ts. length ts = 1559 \<and> Level_init = Inr ts \<and> (\<forall>t. build t = Inr (t @ ts))"
proof -
  from appends_err_build obtain ts where
    ts: "length ts = 1559" "\<And>t. build t = Inr (t @ ts)"
    unfolding appends_err_def by blast
  have "Level_init = Inr ts"
    using ts(2) [of "[]"] by (simp add: Level_init_def)
  with ts show ?thesis by blast
qed

theorem build_deterministic_witness:
  "\<exists>ts. length ts = 1559 \<and> build [] = Inr ts \<and>
        build [sample_tri] = Inr (sample_tri # ts) \<and>
        build [behind_tri, sample_tri] = Inr (behind_tri # sample_tri # ts)"
proof -
  from build_deterministic obtain ts where
    ts: "length ts = 1559" "\<forall>t. build t = Inr (t @ ts)"
    by blast
  from ts(2) have "build [] = Inr ts"
    "build [sample_tri] = Inr (sample_tri # ts)"
    "build [behind_tri, sample_tri] = Inr (behind_tri # sample_tri # ts)"
    by simp_all
  with ts(1) show ?thesis by blast
qed

end
